theory Spec2Isabelle
  imports Main "HOL-Library.Word" "HOL-Library.AList"
begin

section \<open>Data model\<close>

text \<open>
  The development embeds two modules of the repository: the crypto helpers
  (\<^verbatim>\<open>lib/crypto\<close>: \<^verbatim>\<open>u8ToB64\<close>, \<^verbatim>\<open>b64ToU8\<close>, \<^verbatim>\<open>deriveMasterKey\<close>, \<^verbatim>\<open>getSaltForUser\<close>,
  \<^verbatim>\<open>encryptWithAES\<close>, \<^verbatim>\<open>decryptWithAES\<close>, the Kyber wrappers, \<^verbatim>\<open>importSharedSecret\<close>) and
  the \<^verbatim>\<open>AuthProvider\<close> component with decoy mode (\<^verbatim>\<open>login\<close>, \<^verbatim>\<open>logout\<close>,
  \<^verbatim>\<open>changePassword\<close>, \<^verbatim>\<open>decapAndSaveKey\<close>, \<^verbatim>\<open>encapAndSaveKey\<close>, \<^verbatim>\<open>getChatKey\<close>).

  The repository holds two versions of the component. The one embedded here is the later
  one, with the duress check and decoy mode; the earlier one is the same code without the
  duress check, the decoy branches and the decoy flag, and is embedded for \<^verbatim>\<open>login\<close> and
  \<^verbatim>\<open>logout\<close>, where a claim names it.

  The strings of the component are Isabelle strings (8-bit characters); a
  \<^verbatim>\<open>Uint8Array\<close> is a list of 8-bit words.
  Calls to \<^verbatim>\<open>console\<close> are left out: they change neither the state nor a result.
  \<^verbatim>\<open>signup\<close> and the listener of \<^verbatim>\<open>onAuthStateChanged\<close> are not embedded.
\<close>

type_synonym byte = "8 word"
type_synonym Uint8Array = "byte list"

text \<open>What a rejected promise or a \<^verbatim>\<open>throw\<close> carries.\<close>

datatype error =
    Error string
  | FirebaseError string
  | DOMException string
  | SyntaxError string

text \<open>A \<^verbatim>\<open>CryptoKey\<close>: its algorithm name and its key material.\<close>

datatype CryptoKey = CryptoKey string Uint8Array

text \<open>Firebase's \<^verbatim>\<open>User\<close>, as far as the component reads it.\<close>

record User =
  user_uid :: string
  user_email :: "string option"
  emailVerified :: bool

record UserProfile =
  uid :: string
  username :: string
  username_normalized :: string
  email :: string
  kyberPublicKey :: string
  createdAt :: nat
  friends :: "string list"
  duressHash :: "string option"

record KeyVault =
  encryptedPrivateKey :: string
  encryptedSharedSecrets :: string

text \<open>
  \<^verbatim>\<open>SharedSecretsMap\<close> is a JavaScript object from chat ids to Base64 secrets: an
  association list in insertion order.
\<close>

type_synonym SharedSecretsMap = "(string \<times> string) list"

record InMemVault =
  masterKey :: CryptoKey
  kyberPrivateKey :: string
  sharedSecrets :: SharedSecretsMap

text \<open>The five \<^verbatim>\<open>useState\<close> cells of \<^verbatim>\<open>AuthProvider\<close>.\<close>

record AuthState =
  currentUser :: "User option"
  userProfile :: "UserProfile option"
  loading :: bool
  inMemVault :: "InMemVault option"
  isDecoyMode :: bool

section \<open>The platform and the external collaborators\<close>

text \<open>
  Every call that leaves the program (Web Crypto, the Kyber library, Firestore,
  Firebase Auth) is recorded, with its arguments, in the order it is made.
\<close>

datatype call =
    GetRandomValues nat
  | SubtleDigest string Uint8Array
  | SubtleImportKey string Uint8Array
  | SubtleDeriveKey CryptoKey Uint8Array int
  | SubtleEncrypt CryptoKey Uint8Array Uint8Array
  | SubtleDecrypt CryptoKey Uint8Array Uint8Array
  | KemEncap Uint8Array
  | KemDecap Uint8Array Uint8Array
  | HashPasswordForStorage string
  | GetDocs string string string
  | GetDoc string string
  | UpdateDoc string string "(string \<times> string) list"
  | SignInWithEmailAndPassword string string
  | SignOut
  | ReauthenticateWithCredential string string string
  | UpdatePassword string string

text \<open>
  What the outside answers. The browser's and Firebase's functions are not code of the
  repository, so they are parameters: a field per function, giving its result for its
  arguments. A randomised function (\<^verbatim>\<open>getRandomValues\<close>, \<^verbatim>\<open>kem.encap\<close>) also gets the
  number of calls made before it, so that two calls need not agree.
  \<^verbatim>\<open>hashPasswordForStorage\<close> is imported from \<^verbatim>\<open>lib/crypto\<close> but is not in the sources;
  it is a parameter as well.

  The helpers of \<^verbatim>\<open>lib/crypto\<close> hand their text arguments (a password, an email, a
  payload) to \<^verbatim>\<open>TextEncoder\<close> and take text from \<^verbatim>\<open>TextDecoder\<close> without looking
  at it, so the type of that text is a parameter of the platform: strings of 8-bit
  characters for the component, strings of 16-bit code units where a statement is about
  every JavaScript string.
\<close>

record 'text platform =
  btoa :: "string \<Rightarrow> string"
  atob :: "string \<Rightarrow> error + string"
  TextEncoder_encode :: "'text \<Rightarrow> Uint8Array"
  TextDecoder_decode :: "Uint8Array \<Rightarrow> 'text"
  JSON_stringify :: "SharedSecretsMap \<Rightarrow> string"
  JSON_parse :: "string \<Rightarrow> error + SharedSecretsMap"
  getRandomValues :: "nat \<Rightarrow> nat \<Rightarrow> Uint8Array"
  subtle_digest :: "string \<Rightarrow> Uint8Array \<Rightarrow> error + Uint8Array"
  subtle_importKey :: "string \<Rightarrow> Uint8Array \<Rightarrow> error + CryptoKey"
  subtle_deriveKey :: "CryptoKey \<Rightarrow> Uint8Array \<Rightarrow> int \<Rightarrow> error + CryptoKey"
  subtle_encrypt :: "CryptoKey \<Rightarrow> Uint8Array \<Rightarrow> Uint8Array \<Rightarrow> error + Uint8Array"
  subtle_decrypt :: "CryptoKey \<Rightarrow> Uint8Array \<Rightarrow> Uint8Array \<Rightarrow> error + Uint8Array"
  kem_encap :: "nat \<Rightarrow> Uint8Array \<Rightarrow> error + (Uint8Array \<times> Uint8Array)"
  kem_decap :: "Uint8Array \<Rightarrow> Uint8Array \<Rightarrow> error + Uint8Array"
  hashPasswordForStorage :: "string \<Rightarrow> error + string"
  getDocs_users_where_email :: "string \<Rightarrow> error + UserProfile option"
  getDoc_users :: "string \<Rightarrow> error + UserProfile option"
  getDoc_keyVaults :: "string \<Rightarrow> error + KeyVault option"
  updateDoc_keyVaults :: "string \<Rightarrow> (string \<times> string) list \<Rightarrow> error + unit"
  signInWithEmailAndPassword :: "string \<Rightarrow> string \<Rightarrow> error + User"
  signOut :: "error + unit"
  reauthenticateWithCredential :: "User \<Rightarrow> string \<Rightarrow> string \<Rightarrow> error + unit"
  updatePassword :: "User \<Rightarrow> string \<Rightarrow> error + unit"

text \<open>The platform of the component, whose text is a string of 8-bit characters.\<close>

type_synonym env = "string platform"

text \<open>The state a function runs in: the calls made so far and the component's state.\<close>

record world =
  calls :: "call list"
  session :: AuthState

section \<open>Promises\<close>

text \<open>
  An \<^verbatim>\<open>async\<close> function is a function of the world that returns the world it leaves
  and either the error it rejects with (\<open>Inl\<close>) or its value (\<open>Inr\<close>). State written
  before a \<^verbatim>\<open>throw\<close> stays written.
\<close>

type_synonym 'a promise = "world \<Rightarrow> (error + 'a) \<times> world"

definition resolve :: "'a \<Rightarrow> 'a promise" where
  "resolve x w = (Inr x, w)"

definition throw :: "error \<Rightarrow> 'a promise" where
  "throw e w = (Inl e, w)"

definition await :: "'a promise \<Rightarrow> ('a \<Rightarrow> 'b promise) \<Rightarrow> 'b promise" where
  "await m f w = (case m w of (Inl e, w') \<Rightarrow> (Inl e, w') | (Inr x, w') \<Rightarrow> f x w')"

definition try_catch :: "'a promise \<Rightarrow> (error \<Rightarrow> 'a promise) \<Rightarrow> 'a promise" where
  "try_catch m h w = (case m w of (Inl e, w') \<Rightarrow> h e w' | (Inr x, w') \<Rightarrow> (Inr x, w'))"

text \<open>\<^verbatim>\<open>try { m } finally { c }\<close>: \<open>c\<close> runs either way; its own error replaces the outcome.\<close>

definition try_finally :: "'a promise \<Rightarrow> unit promise \<Rightarrow> 'a promise" where
  "try_finally m c w =
     (case m w of (r, w') \<Rightarrow> (case c w' of (Inl e, w'') \<Rightarrow> (Inl e, w'') | (Inr _, w'') \<Rightarrow> (r, w'')))"

text \<open>An external call: recorded, then answered.\<close>

definition external :: "call \<Rightarrow> error + 'a \<Rightarrow> 'a promise" where
  "external c r w = (r, w\<lparr>calls := calls w @ [c]\<rparr>)"

definition external_at :: "call \<Rightarrow> (nat \<Rightarrow> error + 'a) \<Rightarrow> 'a promise" where
  "external_at c r w = (r (length (calls w)), w\<lparr>calls := calls w @ [c]\<rparr>)"

text \<open>A \<^verbatim>\<open>useState\<close> setter.\<close>

definition setState :: "(AuthState \<Rightarrow> AuthState) \<Rightarrow> unit promise" where
  "setState f w = (Inr (), w\<lparr>session := f (session w)\<rparr>)"

section \<open>lib/crypto\<close>

subsection \<open>Uint8Array and Base64\<close>

definition fromCharCode :: "byte \<Rightarrow> char" where
  "fromCharCode b = char_of (unat b)"

definition charCodeAt :: "char \<Rightarrow> byte" where
  "charCodeAt c = word_of_nat (of_char c)"

text \<open>The loop of \<^verbatim>\<open>u8ToB64\<close>: \<^verbatim>\<open>binaryString += String.fromCharCode(array[i])\<close>.\<close>

fun u8ToB64_loop :: "Uint8Array \<Rightarrow> string \<Rightarrow> string" where
  "u8ToB64_loop [] binaryString = binaryString"
| "u8ToB64_loop (b # array) binaryString = u8ToB64_loop array (binaryString @ [fromCharCode b])"

definition u8ToB64 :: "'text platform \<Rightarrow> Uint8Array \<Rightarrow> string" where
  "u8ToB64 env array = btoa env (u8ToB64_loop array [])"

text \<open>The loop of \<^verbatim>\<open>b64ToU8\<close>: \<^verbatim>\<open>bytes[i] = binaryString.charCodeAt(i)\<close>.\<close>

fun b64ToU8_loop :: "string \<Rightarrow> Uint8Array \<Rightarrow> Uint8Array" where
  "b64ToU8_loop [] bytes = bytes"
| "b64ToU8_loop (c # binaryString) bytes = b64ToU8_loop binaryString (bytes @ [charCodeAt c])"

definition b64ToU8 :: "'text platform \<Rightarrow> string \<Rightarrow> Uint8Array promise" where
  "b64ToU8 env base64 =
     (case atob env base64 of
        Inl e \<Rightarrow> throw e
      | Inr binaryString \<Rightarrow> resolve (b64ToU8_loop binaryString []))"

subsection \<open>Key derivation\<close>

definition PBKDF2_ITERATIONS :: int where
  "PBKDF2_ITERATIONS = 100000"

definition deriveMasterKey :: "'text platform \<Rightarrow> 'text \<Rightarrow> Uint8Array \<Rightarrow> CryptoKey promise" where
  "deriveMasterKey env password salt =
     await (external (SubtleImportKey ''PBKDF2'' (TextEncoder_encode env password))
              (subtle_importKey env ''PBKDF2'' (TextEncoder_encode env password)))
       (\<lambda>passwordKey.
          external (SubtleDeriveKey passwordKey salt PBKDF2_ITERATIONS)
            (subtle_deriveKey env passwordKey salt PBKDF2_ITERATIONS))"

definition getSaltForUser :: "'text platform \<Rightarrow> 'text \<Rightarrow> Uint8Array promise" where
  "getSaltForUser env email' =
     (let saltData = TextEncoder_encode env email' in
      await (external (SubtleDigest ''SHA-256'' saltData) (subtle_digest env ''SHA-256'' saltData))
        (\<lambda>hashBuffer. resolve (take 16 hashBuffer)))"

subsection \<open>AES-GCM\<close>

text \<open>
  \<^verbatim>\<open>String.prototype.split\<close> with a one-character separator: \<open>current\<close> is the
  segment being read.
\<close>

fun split_from :: "char \<Rightarrow> string \<Rightarrow> string \<Rightarrow> string list" where
  "split_from sep current [] = [current]"
| "split_from sep current (c # cs) =
     (if c = sep then current # split_from sep [] cs
      else split_from sep (current @ [c]) cs)"

definition split :: "char \<Rightarrow> string \<Rightarrow> string list" where
  "split sep s = split_from sep [] s"

definition encryptWithAES :: "'text platform \<Rightarrow> CryptoKey \<Rightarrow> 'text \<Rightarrow> string promise" where
  "encryptWithAES env key data =
     await (external_at (GetRandomValues 12) (\<lambda>n. Inr (getRandomValues env n 12)))
       (\<lambda>iv.
          let encodedData = TextEncoder_encode env data in
          await (external (SubtleEncrypt key iv encodedData) (subtle_encrypt env key iv encodedData))
            (\<lambda>encryptedBuffer.
               let ivB64 = u8ToB64 env iv;
                   cipherB64 = u8ToB64 env encryptedBuffer
               in resolve (ivB64 @ '':'' @ cipherB64)))"

definition decryptWithAES :: "'text platform \<Rightarrow> CryptoKey \<Rightarrow> string \<Rightarrow> 'text promise" where
  "decryptWithAES env key encryptedData =
     (let parts = split CHR '':'' encryptedData in
      if length parts \<noteq> 2 then throw (Error ''Invalid encrypted data format'')
      else
        await (b64ToU8 env (parts ! 0))
          (\<lambda>iv.
             await (b64ToU8 env (parts ! 1))
               (\<lambda>ciphertext.
                  await (external (SubtleDecrypt key iv ciphertext) (subtle_decrypt env key iv ciphertext))
                    (\<lambda>decryptedBuffer. resolve (TextDecoder_decode env decryptedBuffer)))))"

subsection \<open>Kyber key encapsulation\<close>

text \<open>\<^verbatim>\<open>encapSharedSecret\<close> returns \<^verbatim>\<open>{ sharedSecret, ciphertext }\<close>: a pair, in this order.\<close>

definition encapSharedSecret :: "env \<Rightarrow> string \<Rightarrow> (string \<times> string) promise" where
  "encapSharedSecret env recipientPublicKeyB64 =
     await (b64ToU8 env recipientPublicKeyB64)
       (\<lambda>pk.
          await (external_at (KemEncap pk) (\<lambda>n. kem_encap env n pk))
            (\<lambda>(ct, ss). resolve (u8ToB64 env ss, u8ToB64 env ct)))"

definition decapSharedSecret :: "env \<Rightarrow> string \<Rightarrow> string \<Rightarrow> string promise" where
  "decapSharedSecret env myPrivateKeyB64 ciphertextB64 =
     await (b64ToU8 env myPrivateKeyB64)
       (\<lambda>sk.
          await (b64ToU8 env ciphertextB64)
            (\<lambda>ct.
               await (external (KemDecap ct sk) (kem_decap env ct sk))
                 (\<lambda>ss. resolve (u8ToB64 env ss))))"

definition importSharedSecret :: "env \<Rightarrow> string \<Rightarrow> CryptoKey promise" where
  "importSharedSecret env sharedSecretB64 =
     await (b64ToU8 env sharedSecretB64)
       (\<lambda>rawKey. external (SubtleImportKey ''AES-GCM'' rawKey) (subtle_importKey env ''AES-GCM'' rawKey))"

section \<open>AuthProvider\<close>

text \<open>
  Each function of the component is a closure of one render: it reads the state \<open>s\<close> of
  that render (\<^verbatim>\<open>currentUser\<close>, \<^verbatim>\<open>inMemVault\<close>, \<^verbatim>\<open>isDecoyMode\<close>, \<^verbatim>\<open>loading\<close>), whatever
  the setters have written since. \<open>invoke\<close> calls the closure of the current state.
  The parameter \<^verbatim>\<open>email\<close> of the source is written \<open>email'\<close>, since \<open>email\<close> is the field
  of the profile.
\<close>

definition invoke :: "(AuthState \<Rightarrow> 'a promise) \<Rightarrow> 'a promise" where
  "invoke f w = f (session w) w"

definition setCurrentUser :: "User option \<Rightarrow> unit promise" where
  "setCurrentUser u = setState (\<lambda>t. t\<lparr>currentUser := u\<rparr>)"

definition setUserProfile :: "UserProfile option \<Rightarrow> unit promise" where
  "setUserProfile p = setState (\<lambda>t. t\<lparr>userProfile := p\<rparr>)"

definition setLoading :: "bool \<Rightarrow> unit promise" where
  "setLoading b = setState (\<lambda>t. t\<lparr>loading := b\<rparr>)"

definition setInMemVault :: "InMemVault option \<Rightarrow> unit promise" where
  "setInMemVault v = setState (\<lambda>t. t\<lparr>inMemVault := v\<rparr>)"

definition setIsDecoyMode :: "bool \<Rightarrow> unit promise" where
  "setIsDecoyMode b = setState (\<lambda>t. t\<lparr>isDecoyMode := b\<rparr>)"

text \<open>
  \<^verbatim>\<open>String.prototype.toLowerCase\<close> on the characters an Isabelle string has (Latin-1):
  A to Z, and the capital letters from U+00C0 to U+00DE but the sign U+00D7.
\<close>

definition toLowerCase_char :: "char \<Rightarrow> char" where
  "toLowerCase_char c =
     (let n = (of_char c :: nat)
      in if (65 \<le> n \<and> n \<le> 90) \<or> (192 \<le> n \<and> n \<le> 222 \<and> n \<noteq> 215) then char_of (n + 32) else c)"

definition toLowerCase :: "string \<Rightarrow> string" where
  "toLowerCase s = map toLowerCase_char s"

subsection \<open>logout\<close>

definition logout :: "env \<Rightarrow> AuthState \<Rightarrow> unit promise" where
  "logout env s =
     (if isDecoyMode s then
        await (setCurrentUser None)
          (\<lambda>_. await (setUserProfile None)
             (\<lambda>_. await (setInMemVault None)
                (\<lambda>_. setIsDecoyMode False)))
      else external SignOut (signOut env))"

subsection \<open>login\<close>

text \<open>
  The first \<^verbatim>\<open>try\<close> block of \<^verbatim>\<open>login\<close>. Its value says whether the block returned from
  \<^verbatim>\<open>login\<close> (the decoy session was installed). \<^verbatim>\<open>if (profile.duressHash)\<close> is false for a
  missing field and for the empty string.
\<close>

definition duressCheck :: "env \<Rightarrow> string \<Rightarrow> string \<Rightarrow> bool promise" where
  "duressCheck env email' password =
     await (external (GetDocs ''users'' ''email'' (toLowerCase email'))
              (getDocs_users_where_email env (toLowerCase email')))
       (\<lambda>userSnap.
          case userSnap of
            None \<Rightarrow> resolve False
          | Some profile \<Rightarrow>
              (case duressHash profile of
                 None \<Rightarrow> resolve False
               | Some storedHash \<Rightarrow>
                   if storedHash = [] then resolve False
                   else
                     await (external (HashPasswordForStorage password) (hashPasswordForStorage env password))
                       (\<lambda>enteredHash.
                          if enteredHash = storedHash then
                            await (setCurrentUser
                                     (Some \<lparr>user_uid = uid profile, user_email = Some (email profile),
                                            emailVerified = True\<rparr>))
                              (\<lambda>_. await (setUserProfile (Some profile))
                                 (\<lambda>_. await (setInMemVault None)
                                    (\<lambda>_. await (setIsDecoyMode True)
                                       (\<lambda>_. await (setLoading False)
                                          (\<lambda>_. resolve True)))))
                          else resolve False)))"

text \<open>
  \<^verbatim>\<open>user.email!\<close>: the assertion is erased at run time, and \<^verbatim>\<open>TextEncoder.encode\<close>
  converts \<^verbatim>\<open>null\<close> to the string \<^verbatim>\<open>"null"\<close>.
\<close>

definition email_asserted :: "User \<Rightarrow> string" where
  "email_asserted user = (case user_email user of Some e \<Rightarrow> e | None \<Rightarrow> ''null'')"

text \<open>The inner \<^verbatim>\<open>try\<close> block of the real login: both fields are decrypted, then parsed.\<close>

definition decryptVault :: "env \<Rightarrow> CryptoKey \<Rightarrow> KeyVault \<Rightarrow> (string \<times> SharedSecretsMap) promise" where
  "decryptVault env mk vault =
     await (decryptWithAES env mk (encryptedPrivateKey vault))
       (\<lambda>pKey.
          await (decryptWithAES env mk (encryptedSharedSecrets vault))
            (\<lambda>secretsJson.
               case JSON_parse env secretsJson of
                 Inl e \<Rightarrow> throw e
               | Inr secrets \<Rightarrow> resolve (pKey, secrets)))"

definition realLogin :: "env \<Rightarrow> AuthState \<Rightarrow> string \<Rightarrow> string \<Rightarrow> unit promise" where
  "realLogin env s email' password =
     await (external (SignInWithEmailAndPassword email' password)
              (signInWithEmailAndPassword env email' password))
       (\<lambda>user.
          await (getSaltForUser env (email_asserted user))
            (\<lambda>salt.
               await (deriveMasterKey env password salt)
                 (\<lambda>mk.
                    await (external (GetDoc ''users'' (user_uid user)) (getDoc_users env (user_uid user)))
                      (\<lambda>profile.
                         await (external (GetDoc ''keyVaults'' (user_uid user))
                                  (getDoc_keyVaults env (user_uid user)))
                           (\<lambda>vaultDoc.
                              case vaultDoc of
                                None \<Rightarrow> throw (Error ''Key vault not found.'')
                              | Some vault \<Rightarrow>
                                  await (try_catch (decryptVault env mk vault)
                                           (\<lambda>err. await (logout env s)
                                              (\<lambda>_. throw (Error ''Invalid password.''))))
                                    (\<lambda>(pKey, secrets).
                                       await (setCurrentUser (Some user))
                                         (\<lambda>_. await (setUserProfile profile)
                                            (\<lambda>_. await (setInMemVault
                                                     (Some \<lparr>masterKey = mk, kyberPrivateKey = pKey,
                                                            sharedSecrets = secrets\<rparr>))
                                               (\<lambda>_. setIsDecoyMode False)))))))))"

definition login :: "env \<Rightarrow> AuthState \<Rightarrow> string \<Rightarrow> string \<Rightarrow> unit promise" where
  "login env s email' password =
     await (setLoading True)
       (\<lambda>_.
          await (try_catch (duressCheck env email' password) (\<lambda>duressCheckError. resolve False))
            (\<lambda>returned.
               if returned then resolve ()
               else
                 try_finally
                   (try_catch (realLogin env s email' password) (\<lambda>realAuthError. throw realAuthError))
                   (if loading s then setLoading False else resolve ())))"

subsection \<open>login and logout of the earlier version\<close>

text \<open>
  The earlier version of the component (\<^verbatim>\<open>context/AuthContext.tsx\<close>) has no decoy mode:
  its \<^verbatim>\<open>logout\<close> is the sign-out alone, and its \<^verbatim>\<open>login\<close> has no duress check, asks
  for the profile as well as the vault record, and clears \<^verbatim>\<open>loading\<close> in its \<^verbatim>\<open>finally\<close>
  block whatever the render saw. Neither reads the state of its render. The decryption
  of the vault and its \<^verbatim>\<open>catch\<close> block are the same lines as in the later version.
\<close>

definition logout_earlier :: "env \<Rightarrow> unit promise" where
  "logout_earlier env = external SignOut (signOut env)"

definition login_earlier :: "env \<Rightarrow> string \<Rightarrow> string \<Rightarrow> unit promise" where
  "login_earlier env email' password =
     await (setLoading True)
       (\<lambda>_.
          try_finally
            (try_catch
               (await (external (SignInWithEmailAndPassword email' password)
                         (signInWithEmailAndPassword env email' password))
                  (\<lambda>user.
                     await (getSaltForUser env (email_asserted user))
                       (\<lambda>salt.
                          await (deriveMasterKey env password salt)
                            (\<lambda>mk.
                               await (external (GetDoc ''users'' (user_uid user))
                                        (getDoc_users env (user_uid user)))
                                 (\<lambda>profileDoc.
                                    await (external (GetDoc ''keyVaults'' (user_uid user))
                                             (getDoc_keyVaults env (user_uid user)))
                                      (\<lambda>vaultDoc.
                                         case (profileDoc, vaultDoc) of
                                           (Some profile, Some vault) \<Rightarrow>
                                             await (try_catch (decryptVault env mk vault)
                                                      (\<lambda>err. await (logout_earlier env)
                                                         (\<lambda>_. throw (Error ''Invalid password.''))))
                                               (\<lambda>(pKey, secrets).
                                                  await (setCurrentUser (Some user))
                                                    (\<lambda>_. await (setUserProfile (Some profile))
                                                       (\<lambda>_. setInMemVault
                                                               (Some \<lparr>masterKey = mk, kyberPrivateKey = pKey,
                                                                      sharedSecrets = secrets\<rparr>))))
                                         | _ \<Rightarrow> throw (Error ''User data or key vault not found.'')))))))
               (\<lambda>err. throw err))
            (setLoading False))"

subsection \<open>changePassword\<close>

definition changePassword :: "env \<Rightarrow> AuthState \<Rightarrow> string \<Rightarrow> string \<Rightarrow> unit promise" where
  "changePassword env s currentPassword newPassword =
     (case currentUser s of
        None \<Rightarrow> throw (Error ''User not fully authenticated.'')
      | Some user \<Rightarrow>
     (case user_email user of
        None \<Rightarrow> throw (Error ''User not fully authenticated.'')
      | Some userEmail \<Rightarrow>
     (case inMemVault s of
        None \<Rightarrow> throw (Error ''User not fully authenticated.'')
      | Some vault \<Rightarrow>
          if userEmail = [] then throw (Error ''User not fully authenticated.'')
          else if isDecoyMode s then throw (Error ''Cannot change password in decoy mode.'')
          else
            await (external (ReauthenticateWithCredential (user_uid user) userEmail currentPassword)
                     (reauthenticateWithCredential env user userEmail currentPassword))
              (\<lambda>_.
                 try_catch
                   (await (getSaltForUser env userEmail)
                      (\<lambda>salt.
                         let decryptedPrivateKey = kyberPrivateKey vault;
                             decryptedSecrets = sharedSecrets vault
                         in
                         await (deriveMasterKey env newPassword salt)
                           (\<lambda>newMasterKey.
                              await (encryptWithAES env newMasterKey decryptedPrivateKey)
                                (\<lambda>newEncryptedPrivateKey.
                                   await (encryptWithAES env newMasterKey
                                            (JSON_stringify env decryptedSecrets))
                                     (\<lambda>newEncryptedSecrets.
                                        let data = [(''encryptedPrivateKey'', newEncryptedPrivateKey),
                                                      (''encryptedSharedSecrets'', newEncryptedSecrets)]
                                        in
                                        await (external (UpdateDoc ''keyVaults'' (user_uid user) data)
                                                 (updateDoc_keyVaults env (user_uid user) data))
                                          (\<lambda>_.
                                             await (external (UpdatePassword (user_uid user) newPassword)
                                                      (updatePassword env user newPassword))
                                               (\<lambda>_. setInMemVault
                                                       (Some (vault\<lparr>masterKey := newMasterKey\<rparr>)))))))))
                   (\<lambda>cryptoError.
                      throw (Error ''Vault re-encryption failed. Password not changed.''))))))"

subsection \<open>decapAndSaveKey, encapAndSaveKey, getChatKey\<close>

text \<open>
  \<^verbatim>\<open>{ ...inMemVault.sharedSecrets, [chatId]: secret }\<close> keeps the place of a key the map
  has and appends a new one: \<open>AList.update\<close>.
  \<^verbatim>\<open>setInMemVault((v) => v ? { ...v, sharedSecrets: newSecretsMap } : null)\<close> reads the
  state at the time it runs.
\<close>

definition saveSecrets :: "SharedSecretsMap \<Rightarrow> unit promise" where
  "saveSecrets newSecretsMap =
     setState (\<lambda>t. t\<lparr>inMemVault :=
       (case inMemVault t of
          Some v \<Rightarrow> Some (v\<lparr>sharedSecrets := newSecretsMap\<rparr>)
        | None \<Rightarrow> None)\<rparr>)"

definition decapAndSaveKey :: "env \<Rightarrow> AuthState \<Rightarrow> string \<Rightarrow> string \<Rightarrow> unit promise" where
  "decapAndSaveKey env s chatId ciphertext =
     (case inMemVault s of
        None \<Rightarrow> throw (Error ''Vault locked.'')
      | Some vault \<Rightarrow>
     (case currentUser s of
        None \<Rightarrow> throw (Error ''Vault locked.'')
      | Some user \<Rightarrow>
          if isDecoyMode s then throw (Error ''Cannot use crypto in decoy mode.'')
          else
            await (decapSharedSecret env (kyberPrivateKey vault) ciphertext)
              (\<lambda>sharedSecretB64.
                 let newSecretsMap = AList.update chatId sharedSecretB64 (sharedSecrets vault) in
                 await (encryptWithAES env (masterKey vault) (JSON_stringify env newSecretsMap))
                   (\<lambda>encryptedSharedSecrets'.
                      let data = [(''encryptedSharedSecrets'', encryptedSharedSecrets')] in
                      await (external (UpdateDoc ''keyVaults'' (user_uid user) data)
                               (updateDoc_keyVaults env (user_uid user) data))
                        (\<lambda>_. saveSecrets newSecretsMap)))))"

definition encapAndSaveKey :: "env \<Rightarrow> AuthState \<Rightarrow> string \<Rightarrow> string \<Rightarrow> string promise" where
  "encapAndSaveKey env s chatId recipientPublicKey =
     (case inMemVault s of
        None \<Rightarrow> throw (Error ''Vault locked.'')
      | Some vault \<Rightarrow>
     (case currentUser s of
        None \<Rightarrow> throw (Error ''Vault locked.'')
      | Some user \<Rightarrow>
          if isDecoyMode s then throw (Error ''Cannot use crypto in decoy mode.'')
          else
            await (encapSharedSecret env recipientPublicKey)
              (\<lambda>(sharedSecret, ciphertext).
                 let newSecretsMap = AList.update chatId sharedSecret (sharedSecrets vault) in
                 await (encryptWithAES env (masterKey vault) (JSON_stringify env newSecretsMap))
                   (\<lambda>encryptedSharedSecrets'.
                      let data = [(''encryptedSharedSecrets'', encryptedSharedSecrets')] in
                      await (external (UpdateDoc ''keyVaults'' (user_uid user) data)
                               (updateDoc_keyVaults env (user_uid user) data))
                        (\<lambda>_. await (saveSecrets newSecretsMap) (\<lambda>_. resolve ciphertext))))))"

text \<open>\<^verbatim>\<open>if (!secretB64)\<close> holds for a chat the map does not have and for an empty secret.\<close>

definition getChatKey :: "env \<Rightarrow> AuthState \<Rightarrow> string \<Rightarrow> CryptoKey option promise" where
  "getChatKey env s chatId =
     (if isDecoyMode s then resolve None
      else
        case inMemVault s of
          None \<Rightarrow> resolve None
        | Some vault \<Rightarrow>
            (case map_of (sharedSecrets vault) chatId of
               None \<Rightarrow> resolve None
             | Some secretB64 \<Rightarrow>
                 if secretB64 = [] then resolve None
                 else await (importSharedSecret env secretB64) (\<lambda>k. resolve (Some k))))"

section \<open>Sequences of vault-dependent operations\<close>

text \<open>
  The four functions of the component that need the vault, as requests, and the world a
  sequence of them leaves. Each request calls the closure of the state it finds.
\<close>

datatype vault_op =
    GetChatKey string
  | DecapAndSaveKey string string
  | EncapAndSaveKey string string
  | ChangePassword string string

fun run_op :: "env \<Rightarrow> vault_op \<Rightarrow> world \<Rightarrow> world" where
  "run_op env (GetChatKey chatId) w = snd (invoke (\<lambda>s. getChatKey env s chatId) w)"
| "run_op env (DecapAndSaveKey chatId ciphertext) w =
     snd (invoke (\<lambda>s. decapAndSaveKey env s chatId ciphertext) w)"
| "run_op env (EncapAndSaveKey chatId recipientPublicKey) w =
     snd (invoke (\<lambda>s. encapAndSaveKey env s chatId recipientPublicKey) w)"
| "run_op env (ChangePassword currentPassword newPassword) w =
     snd (invoke (\<lambda>s. changePassword env s currentPassword newPassword) w)"

fun run_ops :: "env \<Rightarrow> vault_op list \<Rightarrow> world \<Rightarrow> world" where
  "run_ops env [] w = w"
| "run_ops env (op # ops) w = run_ops env ops (run_op env op w)"

section \<open>What the statements speak of\<close>

subsection \<open>Contracts of the platform\<close>



subsection \<open>The duress condition\<close>

text \<open>
  The condition under which the first block of \<^verbatim>\<open>login\<close> installs the decoy session: the
  query finds a profile, its \<^verbatim>\<open>duressHash\<close> is a non-empty string, and the hash of the
  entered password is that string.
\<close>

definition duressMatches :: "env \<Rightarrow> string \<Rightarrow> string \<Rightarrow> bool" where
  "duressMatches env email' password =
     (case getDocs_users_where_email env (toLowerCase email') of
        Inl e \<Rightarrow> False
      | Inr None \<Rightarrow> False
      | Inr (Some profile) \<Rightarrow>
          (case duressHash profile of
             None \<Rightarrow> False
           | Some storedHash \<Rightarrow>
               storedHash \<noteq> [] \<and> hashPasswordForStorage env password = Inr storedHash))"

subsection \<open>Writes of the vault record\<close>

text \<open>The \<^verbatim>\<open>updateDoc\<close> calls on \<^verbatim>\<open>keyVaults\<close> among some calls: document id and data.\<close>

fun keyVault_writes :: "call list \<Rightarrow> (string \<times> (string \<times> string) list) list" where
  "keyVault_writes [] = []"
| "keyVault_writes (UpdateDoc collection docId payload # cs) =
     (if collection = ''keyVaults'' then (docId, payload) # keyVault_writes cs
      else keyVault_writes cs)"
| "keyVault_writes (c # cs) = keyVault_writes cs"

text \<open>
  What the store holds after some writes. Firestore's \<^verbatim>\<open>updateDoc\<close> sets the fields it
  is given and leaves the others of the document; a write the store refused changes
  nothing. \<open>keyVault_after env docId writes vault\<close> is the record of \<open>docId\<close> after
  \<open>writes\<close>, when it was \<open>vault\<close> before.
\<close>

fun updateDoc_merge :: "(string \<times> string) list \<Rightarrow> KeyVault \<Rightarrow> KeyVault" where
  "updateDoc_merge [] vault = vault"
| "updateDoc_merge ((field, v) # payload) vault =
     updateDoc_merge payload
       (if field = ''encryptedPrivateKey'' then vault\<lparr>encryptedPrivateKey := v\<rparr>
        else if field = ''encryptedSharedSecrets'' then vault\<lparr>encryptedSharedSecrets := v\<rparr>
        else vault)"

fun keyVault_after ::
  "env \<Rightarrow> string \<Rightarrow> (string \<times> (string \<times> string) list) list \<Rightarrow> KeyVault \<Rightarrow> KeyVault" where
  "keyVault_after env docId [] vault = vault"
| "keyVault_after env docId ((d, payload) # writes) vault =
     keyVault_after env docId writes
       (if d = docId \<and> updateDoc_keyVaults env d payload = Inr () then updateDoc_merge payload vault
        else vault)"

text \<open>
  What one secret update does, from world \<open>w\<close> to world \<open>w'\<close>. When it succeeds (\<open>ok\<close>):
  one write, of the single field \<^verbatim>\<open>encryptedSharedSecrets\<close>, whose value is an
  encryption under the vault's master key of the serialised new map, the old map with one
  entry put at \<open>chatId\<close>; the vault in memory then holds that map. When it fails: the
  state is the old one, and there was no write or one write of that single field.
\<close>

definition secret_update_effect ::
  "env \<Rightarrow> InMemVault \<Rightarrow> User \<Rightarrow> string \<Rightarrow> world \<Rightarrow> bool \<Rightarrow> world \<Rightarrow> bool" where
  "secret_update_effect env vault user chatId w ok w' =
     (\<exists>cs. calls w' = calls w @ cs \<and>
        (if ok then
           \<exists>secret packed w1.
              keyVault_writes cs = [(user_uid user, [(''encryptedSharedSecrets'', packed)])] \<and>
              fst (encryptWithAES env (masterKey vault)
                     (JSON_stringify env (AList.update chatId secret (sharedSecrets vault))) w1) =
                Inr packed \<and>
              session w' = (session w)\<lparr>inMemVault :=
                 Some (vault\<lparr>sharedSecrets := AList.update chatId secret (sharedSecrets vault)\<rparr>)\<rparr>
         else
           session w' = session w \<and>
           (keyVault_writes cs = [] \<or>
            (\<exists>packed. keyVault_writes cs = [(user_uid user, [(''encryptedSharedSecrets'', packed)])]))))"

text \<open>
  The order of write and state update in one run (\<open>run\<close> is its outcome and world): if
  the state changed, the run succeeded and its last call is a write of
  \<^verbatim>\<open>encryptedSharedSecrets\<close> that the store accepted; if the store accepts no write at
  all, the run fails and the state is the old one.
\<close>

definition saved_after_write :: "env \<Rightarrow> world \<Rightarrow> (error + 'a) \<times> world \<Rightarrow> bool" where
  "saved_after_write env w run =
     ((session (snd run) \<noteq> session w \<longrightarrow>
         \<not> isl (fst run) \<and>
         (\<exists>docId packed.
            calls (snd run) \<noteq> [] \<and>
            last (calls (snd run)) = UpdateDoc ''keyVaults'' docId [(''encryptedSharedSecrets'', packed)] \<and>
            updateDoc_keyVaults env docId [(''encryptedSharedSecrets'', packed)] = Inr ())) \<and>
      ((\<forall>docId payload. updateDoc_keyVaults env docId payload \<noteq> Inr ()) \<longrightarrow>
         isl (fst run) \<and> session (snd run) = session w))"

subsection \<open>Frames\<close>

text \<open>
  A promise keeps the session when it writes no state; it is safe on error when a run
  that rejects leaves the state it found; it makes no vault write when the calls it adds
  hold no \<^verbatim>\<open>updateDoc\<close> on \<^verbatim>\<open>keyVaults\<close>.
\<close>

definition keeps_session :: "'a promise \<Rightarrow> bool" where
  "keeps_session m = (\<forall>w. session (snd (m w)) = session w)"

definition safe_on_error :: "'a promise \<Rightarrow> bool" where
  "safe_on_error m = (\<forall>w e w'. m w = (Inl e, w') \<longrightarrow> session w' = session w)"

definition no_writes :: "'a promise \<Rightarrow> bool" where
  "no_writes m = (\<forall>w. \<exists>cs. calls (snd (m w)) = calls w @ cs \<and> keyVault_writes cs = [])"

text \<open>
  The steps \<^verbatim>\<open>decapAndSaveKey\<close> and \<^verbatim>\<open>encapAndSaveKey\<close> share once they hold the
  secret: encrypt the new map, write it, update the state, return \<open>result\<close>.
\<close>

definition save_step ::
  "env \<Rightarrow> InMemVault \<Rightarrow> User \<Rightarrow> string \<Rightarrow> string \<Rightarrow> 'a \<Rightarrow> 'a promise" where
  "save_step env vault user chatId secret result =
     await (encryptWithAES env (masterKey vault)
              (JSON_stringify env (AList.update chatId secret (sharedSecrets vault))))
       (\<lambda>packed.
          await (external (UpdateDoc ''keyVaults'' (user_uid user) [(''encryptedSharedSecrets'', packed)])
                   (updateDoc_keyVaults env (user_uid user) [(''encryptedSharedSecrets'', packed)]))
            (\<lambda>_. await (saveSecrets (AList.update chatId secret (sharedSecrets vault)))
               (\<lambda>_. resolve result)))"

section \<open>SHA-256\<close>

text \<open>
  \<^verbatim>\<open>getSaltForUser\<close> asks the platform for the \<^verbatim>\<open>'SHA-256'\<close> digest. To evaluate it on
  concrete emails, the function of FIPS 180-4 follows, on 32-bit words.
\<close>

unbundle bit_operations_syntax

type_synonym w32 = "32 word"

definition rotr :: "nat \<Rightarrow> w32 \<Rightarrow> w32" where
  "rotr n x = (drop_bit n x) OR (push_bit (32 - n) x)"

definition Ch :: "w32 \<Rightarrow> w32 \<Rightarrow> w32 \<Rightarrow> w32" where
  "Ch x y z = (x AND y) XOR (NOT x AND z)"

definition Maj :: "w32 \<Rightarrow> w32 \<Rightarrow> w32 \<Rightarrow> w32" where
  "Maj x y z = (x AND y) XOR (x AND z) XOR (y AND z)"

definition bsig0 :: "w32 \<Rightarrow> w32" where
  "bsig0 x = rotr 2 x XOR rotr 13 x XOR rotr 22 x"

definition bsig1 :: "w32 \<Rightarrow> w32" where
  "bsig1 x = rotr 6 x XOR rotr 11 x XOR rotr 25 x"

definition ssig0 :: "w32 \<Rightarrow> w32" where
  "ssig0 x = rotr 7 x XOR rotr 18 x XOR drop_bit 3 x"

definition ssig1 :: "w32 \<Rightarrow> w32" where
  "ssig1 x = rotr 17 x XOR rotr 19 x XOR drop_bit 10 x"

definition K256 :: "w32 list" where
  "K256 = [
     0x428A2F98, 0x71374491, 0xB5C0FBCF, 0xE9B5DBA5, 0x3956C25B, 0x59F111F1, 0x923F82A4, 0xAB1C5ED5,
     0xD807AA98, 0x12835B01, 0x243185BE, 0x550C7DC3, 0x72BE5D74, 0x80DEB1FE, 0x9BDC06A7, 0xC19BF174,
     0xE49B69C1, 0xEFBE4786, 0x0FC19DC6, 0x240CA1CC, 0x2DE92C6F, 0x4A7484AA, 0x5CB0A9DC, 0x76F988DA,
     0x983E5152, 0xA831C66D, 0xB00327C8, 0xBF597FC7, 0xC6E00BF3, 0xD5A79147, 0x06CA6351, 0x14292967,
     0x27B70A85, 0x2E1B2138, 0x4D2C6DFC, 0x53380D13, 0x650A7354, 0x766A0ABB, 0x81C2C92E, 0x92722C85,
     0xA2BFE8A1, 0xA81A664B, 0xC24B8B70, 0xC76C51A3, 0xD192E819, 0xD6990624, 0xF40E3585, 0x106AA070,
     0x19A4C116, 0x1E376C08, 0x2748774C, 0x34B0BCB5, 0x391C0CB3, 0x4ED8AA4A, 0x5B9CCA4F, 0x682E6FF3,
     0x748F82EE, 0x78A5636F, 0x84C87814, 0x8CC70208, 0x90BEFFFA, 0xA4506CEB, 0xBEF9A3F7, 0xC67178F2]"

definition H256 :: "w32 list" where
  "H256 = [0x6a09e667, 0xbb67ae85, 0x3c6ef372, 0xa54ff53a,
           0x510e527f, 0x9b05688c, 0x1f83d9ab, 0x5be0cd19]"

text \<open>Big-endian words of a block, and the bytes of a word.\<close>

fun be32 :: "byte list \<Rightarrow> w32 list" where
  "be32 (a # b # c # d # r) =
     (push_bit 24 (ucast a) OR push_bit 16 (ucast b) OR push_bit 8 (ucast c) OR ucast d) # be32 r"
| "be32 r = []"

definition bytes_of_w32 :: "w32 \<Rightarrow> byte list" where
  "bytes_of_w32 x = [ucast (drop_bit 24 x), ucast (drop_bit 16 x), ucast (drop_bit 8 x), ucast x]"

text \<open>Padding: the bit 1, zeros up to 56 modulo 64 bytes, the length in bits on 64 bits.\<close>

definition pad :: "byte list \<Rightarrow> byte list" where
  "pad m =
     (let l = length m;
          z = (55 + 64 - l mod 64) mod 64;
          bl = (word_of_nat (8 * l) :: 64 word)
      in m @ [0x80] @ replicate z 0 @ map (\<lambda>i. ucast (drop_bit (8 * (7 - i)) bl)) [0..<8])"

text \<open>The message schedule: \<open>n\<close> more words after the sixteen of the block.\<close>

fun schedule :: "nat \<Rightarrow> w32 list \<Rightarrow> w32 list" where
  "schedule 0 ws = ws"
| "schedule (Suc n) ws =
     (let t = length ws
      in schedule n (ws @ [ssig1 (ws ! (t - 2)) + ws ! (t - 7) + ssig0 (ws ! (t - 15)) + ws ! (t - 16)]))"

fun round256 :: "w32 list \<Rightarrow> w32 \<times> w32 \<Rightarrow> w32 list" where
  "round256 [a, b, c, d, e, f, g, h] (k, x) =
     (let t1 = h + bsig1 e + Ch e f g + k + x;
          t2 = bsig0 a + Maj a b c
      in [t1 + t2, a, b, c, d + t1, e, f, g])"
| "round256 s kx = s"

definition compress :: "w32 list \<Rightarrow> byte list \<Rightarrow> w32 list" where
  "compress h block = map2 (+) h (foldl round256 h (zip K256 (schedule 48 (be32 block))))"

function blocks :: "byte list \<Rightarrow> byte list list" where
  "blocks m = (if length m < 64 then [] else take 64 m # blocks (drop 64 m))"
  by pat_completeness auto
termination
  by (relation "measure length") auto

declare blocks.simps [simp del]

definition sha256 :: "Uint8Array \<Rightarrow> Uint8Array" where
  "sha256 m = concat (map bytes_of_w32 (foldl compress H256 (blocks (pad m))))"

section \<open>The text codec of the browser\<close>

text \<open>
  \<^verbatim>\<open>new TextEncoder().encode\<close> and \<^verbatim>\<open>new TextDecoder().decode\<close> as the Encoding
  Standard defines them, on JavaScript strings as they are: sequences of 16-bit code
  units. Code points and byte values are natural numbers here.

  The encoder first reads the string as scalar values (a surrogate pair is one code point,
  a surrogate with no partner becomes U+FFFD), then writes each in UTF-8.
\<close>

type_synonym DOMString = "16 word list"





text \<open>
  The decoder of the standard, in its replacement mode (\<^verbatim>\<open>fatal\<close> is false): \<open>cp\<close> is
  the code point read so far, \<open>needed\<close> the number of continuation bytes still to come,
  \<open>lower\<close> and \<open>upper\<close> the bounds of the next one. A byte out of the bounds gives U+FFFD and
  is then read again as the first byte of a sequence; so does the end of the input in the
  middle of a sequence.
\<close>

fun utf8_decoder :: "nat \<Rightarrow> nat \<Rightarrow> nat \<Rightarrow> nat \<Rightarrow> nat list \<Rightarrow> nat list" where
  "utf8_decoder cp needed lower upper [] = (if needed \<noteq> 0 then [0xFFFD] else [])"
| "utf8_decoder cp needed lower upper (b # bs) =
     (if needed = 0 then
        (if b \<le> 0x7F then b # utf8_decoder 0 0 0x80 0xBF bs
         else if 0xC2 \<le> b \<and> b \<le> 0xDF then utf8_decoder (b mod 0x20) 1 0x80 0xBF bs
         else if 0xE0 \<le> b \<and> b \<le> 0xEF then
           utf8_decoder (b mod 0x10) 2 (if b = 0xE0 then 0xA0 else 0x80) (if b = 0xED then 0x9F else 0xBF) bs
         else if 0xF0 \<le> b \<and> b \<le> 0xF4 then
           utf8_decoder (b mod 8) 3 (if b = 0xF0 then 0x90 else 0x80) (if b = 0xF4 then 0x8F else 0xBF) bs
         else 0xFFFD # utf8_decoder 0 0 0x80 0xBF bs)
      else if b < lower \<or> upper < b then 0xFFFD # utf8_decoder 0 0 0x80 0xBF (b # bs)
      else if needed = 1 then (cp * 0x40 + b mod 0x40) # utf8_decoder 0 0 0x80 0xBF bs
      else utf8_decoder (cp * 0x40 + b mod 0x40) (needed - 1) 0x80 0xBF bs)"

text \<open>
  \<^verbatim>\<open>ignoreBOM\<close> is false: a byte order mark at the start of the decoded text is left out.
  A code point above U+FFFF is written as a surrogate pair.
\<close>

fun strip_BOM :: "nat list \<Rightarrow> nat list" where
  "strip_BOM [] = []"
| "strip_BOM (c # cs) = (if c = 0xFEFF then cs else c # cs)"

definition code_units :: "nat \<Rightarrow> nat list" where
  "code_units cp =
     (if cp < 0x10000 then [cp]
      else [0xD800 + (cp - 0x10000) div 0x400, 0xDC00 + (cp - 0x10000) mod 0x400])"

definition utf8_decode :: "Uint8Array \<Rightarrow> DOMString" where
  "utf8_decode bytes =
     map word_of_nat (concat (map code_units (strip_BOM (utf8_decoder 0 0 0x80 0xBF (map unat bytes)))))"

section \<open>A small platform to evaluate on\<close>

text \<open>
  Concrete answers for every field of \<open>env\<close>, so that the functions run on concrete
  inputs. The ciphers are toys that satisfy the contracts above: the toy Base64 writes a
  character as two letters from A to P; the toy AES-GCM prefixes the plaintext with key
  and nonce and checks the prefix when it decrypts; the toy text encoding is the
  identity on bytes; the toy JSON writes no escapes and parses only the empty object.
\<close>

definition toy_btoa :: "string \<Rightarrow> string" where
  "toy_btoa s = concat (map (\<lambda>c. [char_of (65 + (of_char c :: nat) div 16),
                                   char_of (65 + (of_char c :: nat) mod 16)]) s)"

fun toy_atob :: "string \<Rightarrow> error + string" where
  "toy_atob [] = Inr []"
| "toy_atob [c] = Inl (DOMException ''InvalidCharacterError'')"
| "toy_atob (h # l # r) =
     (let a = (of_char h :: nat); b = (of_char l :: nat)
      in if 65 \<le> a \<and> a < 81 \<and> 65 \<le> b \<and> b < 81 then
           (case toy_atob r of
              Inl e \<Rightarrow> Inl e
            | Inr s \<Rightarrow> Inr (char_of ((a - 65) * 16 + (b - 65)) # s))
         else Inl (DOMException ''InvalidCharacterError''))"

definition toy_stringify :: "SharedSecretsMap \<Rightarrow> string" where
  "toy_stringify m = ''{'' @ concat (map (\<lambda>(k, v). ''\"'' @ k @ ''\":\"'' @ v @ ''\",'') m) @ ''}''"

definition toy_parse :: "string \<Rightarrow> error + SharedSecretsMap" where
  "toy_parse s = (if s = ''{}'' then Inr [] else Inl (SyntaxError ''Unexpected token''))"

fun toy_deriveKey :: "CryptoKey \<Rightarrow> Uint8Array \<Rightarrow> int \<Rightarrow> error + CryptoKey" where
  "toy_deriveKey (CryptoKey alg raw) salt iterations = Inr (CryptoKey ''AES-GCM'' (raw @ salt))"

fun toy_encrypt :: "CryptoKey \<Rightarrow> Uint8Array \<Rightarrow> Uint8Array \<Rightarrow> error + Uint8Array" where
  "toy_encrypt (CryptoKey alg raw) iv m =
     (if alg = ''AES-GCM'' then Inr (raw @ iv @ m) else Inl (DOMException ''InvalidAccessError''))"

fun toy_decrypt :: "CryptoKey \<Rightarrow> Uint8Array \<Rightarrow> Uint8Array \<Rightarrow> error + Uint8Array" where
  "toy_decrypt (CryptoKey alg raw) iv c =
     (if alg = ''AES-GCM'' \<and> take (length (raw @ iv)) c = raw @ iv
      then Inr (drop (length (raw @ iv)) c)
      else Inl (DOMException ''OperationError''))"

text \<open>
  One user, Alice, with a duress password. Her vault record holds her private key
  \<^verbatim>\<open>AB\<close> and the empty map, encrypted by the toy cipher under the key of the password
  \<^verbatim>\<open>correcthorse1\<close>.
\<close>

definition alice :: UserProfile where
  "alice = \<lparr>uid = ''u1'', username = ''Alice'', username_normalized = ''ALICE'',
            email = ''alice@example.com'', kyberPublicKey = ''AB'', createdAt = 0,
            friends = [], duressHash = Some ''#duress''\<rparr>"

definition alice_user :: User where
  "alice_user = \<lparr>user_uid = ''u1'', user_email = Some ''alice@example.com'', emailVerified = True\<rparr>"

definition alice_vault :: KeyVault where
  "alice_vault =
     \<lparr>encryptedPrivateKey =
        ''AAAAAAAAAAAAAAAAAAAAAAAA:GDGPHCHCGFGDHEGIGPHCHDGFDBGBGMGJGDGFEAGFHIGBGNHAGMGFCOGDGPAAAAAAAAAAAAAAAAAAAAAAAAEBEC'',
      encryptedSharedSecrets =
        ''ACACACACACACACACACACACAC:GDGPHCHCGFGDHEGIGPHCHDGFDBGBGMGJGDGFEAGFHIGBGNHAGMGFCOGDGPACACACACACACACACACACACACHLHN''\<rparr>"

definition toy_env :: env where
  "toy_env = \<lparr>
     btoa = toy_btoa,
     atob = toy_atob,
     TextEncoder_encode = map charCodeAt,
     TextDecoder_decode = map fromCharCode,
     JSON_stringify = toy_stringify,
     JSON_parse = toy_parse,
     getRandomValues = (\<lambda>n len. replicate len (word_of_nat n)),
     subtle_digest = (\<lambda>alg m. Inr (take 32 (m @ replicate 32 0))),
     subtle_importKey = (\<lambda>alg raw. Inr (CryptoKey alg raw)),
     subtle_deriveKey = toy_deriveKey,
     subtle_encrypt = toy_encrypt,
     subtle_decrypt = toy_decrypt,
     kem_encap = (\<lambda>n pk. Inr ([word_of_nat n], pk @ [word_of_nat n])),
     kem_decap = (\<lambda>ct sk. Inr (sk @ ct)),
     hashPasswordForStorage = (\<lambda>p. Inr (''#'' @ p)),
     getDocs_users_where_email = (\<lambda>e. if e = ''alice@example.com'' then Inr (Some alice) else Inr None),
     getDoc_users = (\<lambda>u. if u = ''u1'' then Inr (Some alice) else Inr None),
     getDoc_keyVaults = (\<lambda>u. if u = ''u1'' then Inr (Some alice_vault) else Inr None),
     updateDoc_keyVaults = (\<lambda>u d. if u = ''u1'' then Inr () else Inl (FirebaseError ''not-found'')),
     signInWithEmailAndPassword =
       (\<lambda>e p. if e = ''alice@example.com'' \<and> p = ''correcthorse1'' then Inr alice_user
              else Inl (FirebaseError ''auth/invalid-credential'')),
     signOut = Inr (),
     reauthenticateWithCredential =
       (\<lambda>u e p. if p = ''correcthorse1'' then Inr () else Inl (FirebaseError ''auth/wrong-password'')),
     updatePassword = (\<lambda>u p. Inr ())\<rparr>"

text \<open>Variants: the SHA-256 above as digest; a store that is unreachable; an identity
  provider that refuses a new password of fewer than six characters; a vault record whose
  second field was tampered with, and the same with a sign-out that rejects.\<close>

definition sha_env :: env where
  "sha_env = toy_env\<lparr>subtle_digest :=
     (\<lambda>alg m. if alg = ''SHA-256'' then Inr (sha256 m) else Inl (DOMException ''NotSupportedError''))\<rparr>"

definition toy_env_offline :: env where
  "toy_env_offline = toy_env\<lparr>updateDoc_keyVaults := (\<lambda>u d. Inl (FirebaseError ''unavailable''))\<rparr>"

definition toy_env_weak_password :: env where
  "toy_env_weak_password =
     toy_env\<lparr>updatePassword :=
       (\<lambda>u p. if length p < 6 then Inl (FirebaseError ''auth/weak-password'') else Inr ())\<rparr>"

definition tampered_vault :: KeyVault where
  "tampered_vault = alice_vault\<lparr>encryptedSharedSecrets := ''AAAA:AAAA''\<rparr>"

definition toy_env_tampered :: env where
  "toy_env_tampered = toy_env\<lparr>getDoc_keyVaults := (\<lambda>u. Inr (Some tampered_vault))\<rparr>"

definition toy_env_signOut_rejects :: env where
  "toy_env_signOut_rejects =
     toy_env_tampered\<lparr>signOut := Inl (FirebaseError ''auth/network-request-failed'')\<rparr>"

text \<open>
  Alice's record after a password change to \<^verbatim>\<open>abc\<close> has written it: both fields
  encrypted by the toy cipher under the key of \<^verbatim>\<open>abc\<close>. The platform whose store holds
  that record, while the identity provider still knows the password \<^verbatim>\<open>correcthorse1\<close>.
\<close>

definition rotated_vault :: KeyVault where
  "rotated_vault =
     \<lparr>encryptedPrivateKey =
        ''AEAEAEAEAEAEAEAEAEAEAEAE:GBGCGDGBGMGJGDGFEAGFHIGBGNHAGMGFCOGDGPAEAEAEAEAEAEAEAEAEAEAEAEEBEC'',
      encryptedSharedSecrets =
        ''AGAGAGAGAGAGAGAGAGAGAGAG:GBGCGDGBGMGJGDGFEAGFHIGBGNHAGMGFCOGDGPAGAGAGAGAGAGAGAGAGAGAGAGHLHN''\<rparr>"

definition toy_env_rotated :: env where
  "toy_env_rotated =
     toy_env_weak_password\<lparr>getDoc_keyVaults :=
       (\<lambda>u. if u = ''u1'' then Inr (Some rotated_vault) else Inr None)\<rparr>"


text \<open>Three states of the component, and the worlds that hold them with no call made.\<close>

definition signed_out :: AuthState where
  "signed_out = \<lparr>currentUser = None, userProfile = None, loading = False, inMemVault = None,
                 isDecoyMode = False\<rparr>"

definition unlocked_vault :: InMemVault where
  "unlocked_vault = \<lparr>masterKey = CryptoKey ''AES-GCM'' [1, 2, 3], kyberPrivateKey = ''AB'',
                     sharedSecrets = [(''chat0'', ''AC'')]\<rparr>"

definition unlocked :: AuthState where
  "unlocked = \<lparr>currentUser = Some alice_user, userProfile = Some alice, loading = False,
               inMemVault = Some unlocked_vault, isDecoyMode = False\<rparr>"

definition decoy :: AuthState where
  "decoy = \<lparr>currentUser = Some alice_user, userProfile = Some alice, loading = False,
            inMemVault = None, isDecoyMode = True\<rparr>"

definition w_signed_out :: world where
  "w_signed_out = \<lparr>calls = [], session = signed_out\<rparr>"

definition w_unlocked :: world where
  "w_unlocked = \<lparr>calls = [], session = unlocked\<rparr>"

definition w_decoy :: world where
  "w_decoy = \<lparr>calls = [], session = decoy\<rparr>"

text \<open>
  The state \<^verbatim>\<open>login\<close> leaves when Alice signs in from the signed-out state: her vault
  under the key the toy platform derives from her password and her salt.
\<close>

definition alice_key :: CryptoKey where
  "alice_key = CryptoKey ''AES-GCM'' (map charCodeAt ''correcthorse1alice@example.co'')"

definition alice_signed_in :: AuthState where
  "alice_signed_in =
     \<lparr>currentUser = Some alice_user, userProfile = Some alice, loading = True,
      inMemVault = Some \<lparr>masterKey = alice_key, kyberPrivateKey = ''AB'', sharedSecrets = []\<rparr>,
      isDecoyMode = False\<rparr>"

definition w_alice :: world where
  "w_alice = \<lparr>calls = [], session = alice_signed_in\<rparr>"

section \<open>Lemmas\<close>

subsection \<open>Strings and bytes\<close>




lemma u8ToB64_loop_eq: "u8ToB64_loop array acc = acc @ map fromCharCode array"
  by (induction array arbitrary: acc) auto

lemma b64ToU8_loop_eq: "b64ToU8_loop s acc = acc @ map charCodeAt s"
  by (induction s arbitrary: acc) auto

lemma charCodeAt_fromCharCode: "charCodeAt (fromCharCode b) = b"
proof -
  have "unat b < 256"
    using unsigned_less[of b, where 'a = nat] by simp
  then show ?thesis
    unfolding charCodeAt_def fromCharCode_def by simp
qed

lemma fromCharCode_charCodeAt: "fromCharCode (charCodeAt c) = c"
  unfolding charCodeAt_def fromCharCode_def
  by (simp add: unat_of_nat take_bit_eq_mod[symmetric])

subsection \<open>Promises\<close>

lemmas monad_defs = await_def external_def external_at_def resolve_def throw_def try_catch_def
  try_finally_def setState_def invoke_def

lemmas setters = setCurrentUser_def setUserProfile_def setInMemVault_def setIsDecoyMode_def
  setLoading_def setState_def

lemmas toy_defs = toy_env_def w_signed_out_def w_unlocked_def w_decoy_def signed_out_def
  unlocked_def unlocked_vault_def decoy_def alice_user_def alice_def

lemma await_resolve_unit: "await m resolve = m"
  by (rule ext) (auto simp: await_def resolve_def split: prod.splits sum.splits)

subsection \<open>Functions that keep the session\<close>

lemma keeps_resolve: "keeps_session (resolve x)"
  by (simp add: keeps_session_def resolve_def)

lemma keeps_throw: "keeps_session (throw e)"
  by (simp add: keeps_session_def throw_def)

lemma keeps_external: "keeps_session (external c r)"
  by (simp add: keeps_session_def external_def)

lemma keeps_external_at: "keeps_session (external_at c f)"
  by (simp add: keeps_session_def external_at_def)

lemma keeps_await:
  assumes "keeps_session m" and "\<And>x. keeps_session (f x)"
  shows "keeps_session (await m f)"
  unfolding keeps_session_def
proof
  fix w
  obtain r w1 where m: "m w = (r, w1)"
    by (cases "m w")
  have s1: "session w1 = session w"
    using assms(1) m unfolding keeps_session_def by (metis snd_conv)
  show "session (snd (await m f w)) = session w"
  proof (cases r)
    case (Inl e)
    then show ?thesis
      using m s1 by (simp add: await_def)
  next
    case (Inr x)
    then show ?thesis
      using m s1 assms(2)[of x] by (simp add: await_def keeps_session_def)
  qed
qed

lemma keeps_case_prod:
  "(\<And>a b. keeps_session (f a b)) \<Longrightarrow> keeps_session (case p of (a, b) \<Rightarrow> f a b)"
  by (cases p) simp

lemma keeps_b64ToU8: "keeps_session (b64ToU8 env s)"
  by (simp add: b64ToU8_def keeps_resolve keeps_throw split: sum.splits)

lemmas keeps_intros = keeps_await keeps_resolve keeps_throw keeps_external keeps_external_at
  keeps_b64ToU8 keeps_case_prod

lemma keeps_encryptWithAES: "keeps_session (encryptWithAES env key plaintext)"
  unfolding encryptWithAES_def Let_def by (intro keeps_intros)

lemma keeps_decryptWithAES: "keeps_session (decryptWithAES env key packed)"
  unfolding decryptWithAES_def Let_def by (auto intro!: keeps_intros)

lemma keeps_getSaltForUser: "keeps_session (getSaltForUser env e)"
  unfolding getSaltForUser_def Let_def by (intro keeps_intros)

lemma keeps_deriveMasterKey: "keeps_session (deriveMasterKey env p s)"
  unfolding deriveMasterKey_def by (intro keeps_intros)

lemma keeps_decapSharedSecret: "keeps_session (decapSharedSecret env sk ct)"
  unfolding decapSharedSecret_def by (intro keeps_intros)

lemma keeps_encapSharedSecret: "keeps_session (encapSharedSecret env pk)"
  unfolding encapSharedSecret_def by (intro keeps_intros)

lemma keeps_decryptVault: "keeps_session (decryptVault env mk vault)"
  unfolding decryptVault_def
  by (auto intro!: keeps_intros keeps_decryptWithAES split: sum.splits)

subsection \<open>Functions that leave the state alone when they fail\<close>

lemma safe_keeps: "keeps_session m \<Longrightarrow> safe_on_error m"
  unfolding keeps_session_def safe_on_error_def by (metis snd_conv)

lemma safe_throw: "safe_on_error (throw e)"
  by (simp add: safe_keeps keeps_throw)

lemma safe_setState: "safe_on_error (setState f)"
  by (simp add: safe_on_error_def setState_def)

lemma safe_setState_resolve: "safe_on_error (await (setState g) (\<lambda>_. resolve x))"
  by (simp add: safe_on_error_def await_def setState_def resolve_def)

lemma safe_await:
  assumes "keeps_session m" and "\<And>x. safe_on_error (f x)"
  shows "safe_on_error (await m f)"
  unfolding safe_on_error_def
proof (intro allI impI)
  fix w e w'
  assume a: "await m f w = (Inl e, w')"
  obtain r w1 where m: "m w = (r, w1)"
    by (cases "m w")
  have s1: "session w1 = session w"
    using assms(1) m unfolding keeps_session_def by (metis snd_conv)
  show "session w' = session w"
  proof (cases r)
    case (Inl e')
    then show ?thesis
      using m s1 a by (simp add: await_def)
  next
    case (Inr x)
    then have "f x w1 = (Inl e, w')"
      using m a by (simp add: await_def)
    then show ?thesis
      using assms(2)[of x] s1 unfolding safe_on_error_def by metis
  qed
qed

lemma safe_rethrow:
  assumes "safe_on_error m"
  shows "safe_on_error (try_catch m (\<lambda>err. throw e'))"
  unfolding safe_on_error_def
proof (intro allI impI)
  fix w e w'
  assume a: "try_catch m (\<lambda>err. throw e') w = (Inl e, w')"
  obtain r w1 where m: "m w = (r, w1)"
    by (cases "m w")
  show "session w' = session w"
  proof (cases r)
    case (Inl e0)
    then have "w' = w1"
      using m a by (simp add: try_catch_def throw_def)
    then show ?thesis
      using assms m Inl unfolding safe_on_error_def by metis
  next
    case (Inr x)
    then show ?thesis
      using m a by (simp add: try_catch_def)
  qed
qed

lemma safe_case_prod:
  "(\<And>a b. safe_on_error (f a b)) \<Longrightarrow> safe_on_error (case p of (a, b) \<Rightarrow> f a b)"
  by (cases p) simp

lemma safe_changePassword: "safe_on_error (changePassword env s currentPassword newPassword)"
  unfolding changePassword_def Let_def setInMemVault_def
  by (auto split: option.splits
      intro!: safe_throw safe_await safe_rethrow safe_setState keeps_external keeps_getSaltForUser
        keeps_deriveMasterKey keeps_encryptWithAES)

text \<open>A password change that rejects leaves the state of the session as it found it.\<close>

lemma changePassword_rejected_session:
  assumes "isl (fst (invoke (\<lambda>s. changePassword env s currentPassword newPassword) w))"
  shows "session (snd (invoke (\<lambda>s. changePassword env s currentPassword newPassword) w)) = session w"
proof -
  obtain r w' where run: "changePassword env (session w) currentPassword newPassword w = (r, w')"
    by (cases "changePassword env (session w) currentPassword newPassword w")
  with assms obtain e where "r = Inl e"
    by (cases r) (auto simp: invoke_def)
  with run safe_changePassword[of env "session w" currentPassword newPassword]
  have "session w' = session w"
    unfolding safe_on_error_def by blast
  then show ?thesis
    using run by (simp add: invoke_def)
qed

subsection \<open>Functions that do not write the vault record\<close>

lemma keyVault_writes_append: "keyVault_writes (xs @ ys) = keyVault_writes xs @ keyVault_writes ys"
  by (induction xs rule: keyVault_writes.induct) auto

lemma nw_resolve: "no_writes (resolve x)"
  by (simp add: no_writes_def resolve_def)

lemma nw_throw: "no_writes (throw e)"
  by (simp add: no_writes_def throw_def)

lemma nw_external_at: "keyVault_writes [c] = [] \<Longrightarrow> no_writes (external_at c f)"
  by (simp add: no_writes_def external_at_def)

lemma nw_external: "keyVault_writes [c] = [] \<Longrightarrow> no_writes (external c r)"
  by (simp add: no_writes_def external_def)

lemma nw_await:
  assumes "no_writes m" and "\<And>x. no_writes (f x)"
  shows "no_writes (await m f)"
  unfolding no_writes_def
proof
  fix w
  obtain r w1 where m: "m w = (r, w1)"
    by (cases "m w")
  from assms(1) m obtain cs where cs: "calls w1 = calls w @ cs" "keyVault_writes cs = []"
    unfolding no_writes_def by (metis snd_conv)
  show "\<exists>cs. calls (snd (await m f w)) = calls w @ cs \<and> keyVault_writes cs = []"
  proof (cases r)
    case (Inl e)
    then show ?thesis
      using m cs by (simp add: await_def)
  next
    case (Inr x)
    from assms(2)[of x] obtain ds where
      ds: "calls (snd (f x w1)) = calls w1 @ ds" "keyVault_writes ds = []"
      unfolding no_writes_def by blast
    have "calls (snd (await m f w)) = calls w @ (cs @ ds)"
      using m Inr cs ds by (simp add: await_def)
    moreover have "keyVault_writes (cs @ ds) = []"
      using cs ds by (simp add: keyVault_writes_append)
    ultimately show ?thesis
      by blast
  qed
qed

lemma nw_case_prod: "(\<And>a b. no_writes (f a b)) \<Longrightarrow> no_writes (case p of (a, b) \<Rightarrow> f a b)"
  by (cases p) simp

lemma nw_b64ToU8: "no_writes (b64ToU8 env s)"
  by (simp add: b64ToU8_def nw_resolve nw_throw split: sum.splits)

lemmas nw_intros = nw_await nw_resolve nw_throw nw_external nw_external_at nw_b64ToU8 nw_case_prod

lemma nw_encryptWithAES: "no_writes (encryptWithAES env key plaintext)"
  unfolding encryptWithAES_def Let_def by (intro nw_intros) simp_all

lemma nw_decryptWithAES: "no_writes (decryptWithAES env key packed)"
  unfolding decryptWithAES_def Let_def by (auto intro!: nw_intros)

lemma nw_decapSharedSecret: "no_writes (decapSharedSecret env sk ct)"
  unfolding decapSharedSecret_def by (intro nw_intros) simp_all

lemma nw_encapSharedSecret: "no_writes (encapSharedSecret env pk)"
  unfolding encapSharedSecret_def by (intro nw_intros) simp_all

lemma nw_decryptVault: "no_writes (decryptVault env mk vault)"
  unfolding decryptVault_def
  by (auto intro!: nw_intros nw_decryptWithAES split: sum.splits)

lemma frame:
  assumes "no_writes m" and "keeps_session m" and "m w = (r, w1)"
  shows "session w1 = session w \<and> (\<exists>cs. calls w1 = calls w @ cs \<and> keyVault_writes cs = [])"
  using assms unfolding no_writes_def keeps_session_def by (metis snd_conv)

subsection \<open>The operations when the vault is absent\<close>

lemma locked_getChatKey:
  "inMemVault (session w) = None \<or> isDecoyMode (session w) \<Longrightarrow>
   invoke (\<lambda>s. getChatKey env s chatId) w = (Inr None, w)"
  by (auto simp: invoke_def getChatKey_def resolve_def)

lemma locked_decap:
  "inMemVault (session w) = None \<Longrightarrow>
   invoke (\<lambda>s. decapAndSaveKey env s chatId ct) w = (Inl (Error ''Vault locked.''), w)"
  by (simp add: invoke_def decapAndSaveKey_def throw_def)

lemma locked_encap:
  "inMemVault (session w) = None \<Longrightarrow>
   invoke (\<lambda>s. encapAndSaveKey env s chatId pk) w = (Inl (Error ''Vault locked.''), w)"
  by (simp add: invoke_def encapAndSaveKey_def throw_def)

lemma locked_changePassword:
  "inMemVault (session w) = None \<Longrightarrow>
   invoke (\<lambda>s. changePassword env s currentPassword newPassword) w =
     (Inl (Error ''User not fully authenticated.''), w)"
  by (simp add: invoke_def changePassword_def throw_def split: option.splits)

lemma run_op_locked: "inMemVault (session w) = None \<Longrightarrow> run_op env op w = w"
  by (cases op) (simp_all add: locked_getChatKey locked_decap locked_encap locked_changePassword)

lemma run_ops_locked: "inMemVault (session w) = None \<Longrightarrow> run_ops env ops w = w"
  by (induction ops arbitrary: w) (simp_all add: run_op_locked)

subsection \<open>The duress check\<close>

lemma duress_login:
  assumes "getDocs_users_where_email env (toLowerCase email') = Inr (Some profile)"
    and "duressHash profile = Some storedHash" and "storedHash \<noteq> []"
    and "hashPasswordForStorage env password = Inr storedHash"
  shows "invoke (\<lambda>s. login env s email' password) w =
      (Inr (),
       \<lparr>calls = calls w @ [GetDocs ''users'' ''email'' (toLowerCase email'),
                           HashPasswordForStorage password],
        session = \<lparr>currentUser = Some \<lparr>user_uid = uid profile, user_email = Some (email profile),
                                        emailVerified = True\<rparr>,
                   userProfile = Some profile, loading = False, inMemVault = None,
                   isDecoyMode = True\<rparr>\<rparr>)"
  using assms
  by (simp add: invoke_def login_def duressCheck_def await_def try_catch_def resolve_def
      external_def setters)

lemma duress_no_match:
  assumes "\<not> duressMatches env email' password"
  shows "\<exists>cs. try_catch (duressCheck env email' password) (\<lambda>duressCheckError. resolve False) w =
           (Inr False, w\<lparr>calls := calls w @ cs\<rparr>)"
proof -
  let ?q = "GetDocs ''users'' ''email'' (toLowerCase email')"
  let ?h = "HashPasswordForStorage password"
  have "try_catch (duressCheck env email' password) (\<lambda>duressCheckError. resolve False) w =
           (Inr False, w\<lparr>calls := calls w @ [?q]\<rparr>) \<or>
        try_catch (duressCheck env email' password) (\<lambda>duressCheckError. resolve False) w =
           (Inr False, w\<lparr>calls := calls w @ [?q, ?h]\<rparr>)"
    using assms
    by (auto simp: duressMatches_def duressCheck_def try_catch_def await_def external_def resolve_def
        split: sum.splits option.splits)
  then show ?thesis
    by blast
qed

subsection \<open>Unlocking the vault\<close>

lemma decryptWithAES_fst:
  "fst (decryptWithAES env key packed w) = fst (decryptWithAES env key packed w')"
  by (simp add: decryptWithAES_def Let_def b64ToU8_def await_def external_def resolve_def throw_def
      split: sum.splits)

lemma decryptVault_fails:
  assumes "isl (fst (decryptWithAES env mk (encryptedPrivateKey vault) w1)) \<or>
           isl (fst (decryptWithAES env mk (encryptedSharedSecrets vault) w2))"
  shows "isl (fst (decryptVault env mk vault w))"
proof -
  let ?d1 = "decryptWithAES env mk (encryptedPrivateKey vault)"
  let ?d2 = "decryptWithAES env mk (encryptedSharedSecrets vault)"
  obtain r1 wa where d1: "?d1 w = (r1, wa)"
    by (cases "?d1 w")
  obtain r2 wb where d2: "?d2 wa = (r2, wb)"
    by (cases "?d2 wa")
  have f1: "fst (?d1 w1) = r1"
    using decryptWithAES_fst[of env mk _ w1 w] d1 by simp
  have f2: "fst (?d2 w2) = r2"
    using decryptWithAES_fst[of env mk _ w2 wa] d2 by simp
  show ?thesis
  proof (cases r1)
    case (Inl e)
    then show ?thesis
      using d1 by (simp add: decryptVault_def await_def)
  next
    case (Inr pKey)
    then have "isl r2"
      using assms f1 f2 by auto
    then show ?thesis
      using d1 d2 Inr by (auto simp: decryptVault_def await_def isl_def)
  qed
qed

lemma unlock_failure:
  assumes "isl (fst (decryptVault env mk vault w))"
  shows "\<exists>cs. try_catch (decryptVault env mk vault)
                  (\<lambda>err. await (logout env s) (\<lambda>_. throw (Error ''Invalid password.''))) w =
          (if isDecoyMode s then
             (Inl (Error ''Invalid password.''),
              w\<lparr>calls := calls w @ cs,
                session := (session w)\<lparr>currentUser := None, userProfile := None, inMemVault := None,
                                         isDecoyMode := False\<rparr>\<rparr>)
           else
             (Inl (case signOut env of Inr _ \<Rightarrow> Error ''Invalid password.'' | Inl e \<Rightarrow> e),
              w\<lparr>calls := calls w @ cs @ [SignOut]\<rparr>))"
proof -
  let ?d = "decryptVault env mk vault"
  obtain r wa where d: "?d w = (r, wa)"
    by (cases "?d w")
  from assms d obtain err where r: "r = Inl err"
    by (cases r) auto
  have s: "session wa = session w"
    using keeps_decryptVault d unfolding keeps_session_def by (metis snd_conv)
  from frame[OF nw_decryptVault keeps_decryptVault d]
  obtain cs where cs: "calls wa = calls w @ cs"
    by blast
  have wa: "wa = w\<lparr>calls := calls w @ cs\<rparr>"
    using s cs by simp
  show ?thesis
    apply (rule exI[of _ cs])
    using d r wa
    by (auto simp: try_catch_def await_def logout_def setters external_def throw_def split: sum.splits)
qed

text \<open>The outcome of the decryption of the vault does not depend on the calls made before.\<close>

lemma decryptVault_fst:
  "fst (decryptVault env mk vault w) = fst (decryptVault env mk vault w')"
proof -
  let ?d1 = "decryptWithAES env mk (encryptedPrivateKey vault)"
  let ?d2 = "decryptWithAES env mk (encryptedSharedSecrets vault)"
  obtain r1 wa where a: "?d1 w = (r1, wa)"
    by (cases "?d1 w")
  obtain r1' wa' where a': "?d1 w' = (r1', wa')"
    by (cases "?d1 w'")
  have e1: "r1' = r1"
    using decryptWithAES_fst[of env mk "encryptedPrivateKey vault" w w'] a a' by simp
  obtain r2 wb where b: "?d2 wa = (r2, wb)"
    by (cases "?d2 wa")
  obtain r2' wb' where b': "?d2 wa' = (r2', wb')"
    by (cases "?d2 wa'")
  have e2: "r2' = r2"
    using decryptWithAES_fst[of env mk "encryptedSharedSecrets vault" wa wa'] b b' by simp
  show ?thesis
    using a a' b b' e1 e2
    by (auto simp: decryptVault_def await_def throw_def resolve_def split: sum.splits)
qed

text \<open>
  A login of the later version that reaches the decryption of the vault, when that
  decryption fails: the error, the state and the last call.
\<close>

lemma login_decrypt_failure:
  assumes nomatch: "\<not> duressMatches env email' password"
    and signIn: "signInWithEmailAndPassword env email' password = Inr user"
    and digest: "subtle_digest env ''SHA-256'' (TextEncoder_encode env (email_asserted user)) =
                   Inr hashBuffer"
    and importKey: "subtle_importKey env ''PBKDF2'' (TextEncoder_encode env password) = Inr passwordKey"
    and deriveKey: "subtle_deriveKey env passwordKey (take 16 hashBuffer) PBKDF2_ITERATIONS = Inr mk"
    and profileDoc: "getDoc_users env (user_uid user) = Inr profile"
    and vaultDoc: "getDoc_keyVaults env (user_uid user) = Inr (Some vault)"
    and decryptFails: "isl (fst (decryptWithAES env mk (encryptedPrivateKey vault) w1)) \<or>
                       isl (fst (decryptWithAES env mk (encryptedSharedSecrets vault) w2))"
  shows "fst (invoke (\<lambda>s. login env s email' password) w) =
           Inl (if isDecoyMode (session w) then Error ''Invalid password.''
                else (case signOut env of Inr _ \<Rightarrow> Error ''Invalid password.'' | Inl e \<Rightarrow> e)) \<and>
         session (snd (invoke (\<lambda>s. login env s email' password) w)) =
           (if isDecoyMode (session w)
            then (session w)\<lparr>currentUser := None, userProfile := None, inMemVault := None,
                               isDecoyMode := False, loading := \<not> loading (session w)\<rparr>
            else (session w)\<lparr>loading := \<not> loading (session w)\<rparr>) \<and>
         (isDecoyMode (session w) \<or>
          last (calls (snd (invoke (\<lambda>s. login env s email' password) w))) = SignOut)"
proof -
  let ?s = "session w"
  let ?w0 = "w\<lparr>session := ?s\<lparr>loading := True\<rparr>\<rparr>"
  from duress_no_match[OF nomatch, of ?w0] obtain cs0 where
    dc: "try_catch (duressCheck env email' password) (\<lambda>duressCheckError. resolve False) ?w0 =
           (Inr False, ?w0\<lparr>calls := calls ?w0 @ cs0\<rparr>)"
    by blast
  let ?pre = "cs0 @ [SignInWithEmailAndPassword email' password,
                     SubtleDigest ''SHA-256'' (TextEncoder_encode env (email_asserted user)),
                     SubtleImportKey ''PBKDF2'' (TextEncoder_encode env password),
                     SubtleDeriveKey passwordKey (take 16 hashBuffer) PBKDF2_ITERATIONS,
                     GetDoc ''users'' (user_uid user), GetDoc ''keyVaults'' (user_uid user)]"
  let ?w5 = "w\<lparr>session := ?s\<lparr>loading := True\<rparr>, calls := calls w @ ?pre\<rparr>"
  let ?handler = "\<lambda>err. await (logout env ?s) (\<lambda>_. throw (Error ''Invalid password.''))"
  have dvf: "isl (fst (decryptVault env mk vault ?w5))"
    by (rule decryptVault_fails[OF decryptFails])
  from unlock_failure[OF dvf, of ?s] obtain cs where
    uf: "try_catch (decryptVault env mk vault) ?handler ?w5 =
          (if isDecoyMode ?s then
             (Inl (Error ''Invalid password.''),
              ?w5\<lparr>calls := calls ?w5 @ cs,
                session := (session ?w5)\<lparr>currentUser := None, userProfile := None, inMemVault := None,
                                         isDecoyMode := False\<rparr>\<rparr>)
           else
             (Inl (case signOut env of Inr _ \<Rightarrow> Error ''Invalid password.'' | Inl e \<Rightarrow> e),
              ?w5\<lparr>calls := calls ?w5 @ cs @ [SignOut]\<rparr>))"
    by blast
  let ?w1 = "w\<lparr>session := ?s\<lparr>loading := True\<rparr>, calls := calls w @ cs0\<rparr>"
  have rl: "realLogin env ?s email' password ?w1 =
      (case try_catch (decryptVault env mk vault) ?handler ?w5 of
         (Inl e, w') \<Rightarrow> (Inl e, w')
       | (Inr x, w') \<Rightarrow>
           (case x of (pKey, secrets) \<Rightarrow>
              await (setCurrentUser (Some user))
                (\<lambda>_. await (setUserProfile profile)
                   (\<lambda>_. await (setInMemVault
                            (Some \<lparr>masterKey = mk, kyberPrivateKey = pKey, sharedSecrets = secrets\<rparr>))
                      (\<lambda>_. setIsDecoyMode False)))) w')"
    using signIn digest importKey deriveKey profileDoc vaultDoc
    by (simp add: realLogin_def getSaltForUser_def deriveMasterKey_def await_def external_def
        resolve_def Let_def)
  have lg: "invoke (\<lambda>s. login env s email' password) w =
      try_finally
        (try_catch (realLogin env ?s email' password) (\<lambda>realAuthError. throw realAuthError))
        (if loading ?s then setLoading False else resolve ()) ?w1"
    using dc by (simp add: invoke_def login_def await_def setters)
  have rl2: "realLogin env ?s email' password ?w1 =
          (if isDecoyMode ?s then
             (Inl (Error ''Invalid password.''),
              ?w5\<lparr>calls := calls ?w5 @ cs,
                session := (session ?w5)\<lparr>currentUser := None, userProfile := None, inMemVault := None,
                                         isDecoyMode := False\<rparr>\<rparr>)
           else
             (Inl (case signOut env of Inr _ \<Rightarrow> Error ''Invalid password.'' | Inl e \<Rightarrow> e),
              ?w5\<lparr>calls := calls ?w5 @ cs @ [SignOut]\<rparr>))"
    unfolding rl uf by simp
  show ?thesis
    unfolding lg
    by (cases "isDecoyMode ?s"; cases "loading ?s")
      (simp_all add: try_finally_def try_catch_def rl2 throw_def setters resolve_def)
qed

text \<open>The same for the earlier version.\<close>

lemma unlock_failure_earlier:
  assumes "isl (fst (decryptVault env mk vault w))"
  shows "\<exists>cs. try_catch (decryptVault env mk vault)
                  (\<lambda>err. await (logout_earlier env) (\<lambda>_. throw (Error ''Invalid password.''))) w =
             (Inl (case signOut env of Inr _ \<Rightarrow> Error ''Invalid password.'' | Inl e \<Rightarrow> e),
              w\<lparr>calls := calls w @ cs @ [SignOut]\<rparr>)"
proof -
  let ?d = "decryptVault env mk vault"
  obtain r wa where d: "?d w = (r, wa)"
    by (cases "?d w")
  from assms d obtain err where r: "r = Inl err"
    by (cases r) auto
  have s: "session wa = session w"
    using keeps_decryptVault d unfolding keeps_session_def by (metis snd_conv)
  from frame[OF nw_decryptVault keeps_decryptVault d]
  obtain cs where cs: "calls wa = calls w @ cs"
    by blast
  have wa: "wa = w\<lparr>calls := calls w @ cs\<rparr>"
    using s cs by simp
  show ?thesis
    apply (rule exI[of _ cs])
    using d r wa
    by (auto simp: try_catch_def await_def logout_earlier_def external_def throw_def split: sum.splits)
qed

lemma login_earlier_decrypt_failure:
  assumes signIn: "signInWithEmailAndPassword env email' password = Inr user"
    and digest: "subtle_digest env ''SHA-256'' (TextEncoder_encode env (email_asserted user)) =
                   Inr hashBuffer"
    and importKey: "subtle_importKey env ''PBKDF2'' (TextEncoder_encode env password) = Inr passwordKey"
    and deriveKey: "subtle_deriveKey env passwordKey (take 16 hashBuffer) PBKDF2_ITERATIONS = Inr mk"
    and profileDoc: "getDoc_users env (user_uid user) = Inr (Some profile)"
    and vaultDoc: "getDoc_keyVaults env (user_uid user) = Inr (Some vault)"
    and decryptFails: "isl (fst (decryptWithAES env mk (encryptedPrivateKey vault) w1)) \<or>
                       isl (fst (decryptWithAES env mk (encryptedSharedSecrets vault) w2))"
  shows "fst (login_earlier env email' password w) =
           Inl (case signOut env of Inr _ \<Rightarrow> Error ''Invalid password.'' | Inl e \<Rightarrow> e) \<and>
         session (snd (login_earlier env email' password w)) = (session w)\<lparr>loading := False\<rparr> \<and>
         last (calls (snd (login_earlier env email' password w))) = SignOut"
proof -
  let ?s = "session w"
  let ?pre = "[SignInWithEmailAndPassword email' password,
               SubtleDigest ''SHA-256'' (TextEncoder_encode env (email_asserted user)),
               SubtleImportKey ''PBKDF2'' (TextEncoder_encode env password),
               SubtleDeriveKey passwordKey (take 16 hashBuffer) PBKDF2_ITERATIONS,
               GetDoc ''users'' (user_uid user), GetDoc ''keyVaults'' (user_uid user)]"
  let ?w5 = "w\<lparr>session := ?s\<lparr>loading := True\<rparr>, calls := calls w @ ?pre\<rparr>"
  let ?handler = "\<lambda>err. await (logout_earlier env) (\<lambda>_. throw (Error ''Invalid password.''))"
  have dvf: "isl (fst (decryptVault env mk vault ?w5))"
    by (rule decryptVault_fails[OF decryptFails])
  from unlock_failure_earlier[OF dvf] obtain cs where
    uf: "try_catch (decryptVault env mk vault) ?handler ?w5 =
             (Inl (case signOut env of Inr _ \<Rightarrow> Error ''Invalid password.'' | Inl e \<Rightarrow> e),
              ?w5\<lparr>calls := calls ?w5 @ cs @ [SignOut]\<rparr>)"
    by blast
  have lg: "login_earlier env email' password w =
      try_finally
        (try_catch
           (await (try_catch (decryptVault env mk vault) ?handler)
              (\<lambda>(pKey, secrets).
                 await (setCurrentUser (Some user))
                   (\<lambda>_. await (setUserProfile (Some profile))
                      (\<lambda>_. setInMemVault
                              (Some \<lparr>masterKey = mk, kyberPrivateKey = pKey, sharedSecrets = secrets\<rparr>)))))
           (\<lambda>err. throw err))
        (setLoading False) ?w5"
    using signIn digest importKey deriveKey profileDoc vaultDoc
    by (simp add: login_earlier_def getSaltForUser_def deriveMasterKey_def await_def external_def
        resolve_def Let_def setLoading_def setState_def try_finally_def try_catch_def)
  have inner: "await (try_catch (decryptVault env mk vault) ?handler)
              (\<lambda>(pKey, secrets).
                 await (setCurrentUser (Some user))
                   (\<lambda>_. await (setUserProfile (Some profile))
                      (\<lambda>_. setInMemVault
                              (Some \<lparr>masterKey = mk, kyberPrivateKey = pKey, sharedSecrets = secrets\<rparr>)))) ?w5 =
             (Inl (case signOut env of Inr _ \<Rightarrow> Error ''Invalid password.'' | Inl e \<Rightarrow> e),
              ?w5\<lparr>calls := calls ?w5 @ cs @ [SignOut]\<rparr>)"
    by (simp add: await_def uf)
  show ?thesis
    unfolding lg
    by (simp add: try_finally_def try_catch_def inner throw_def setLoading_def setState_def)
qed

text \<open>A login of the later version whose decryption succeeds, and one whose sign-in is refused.\<close>

lemma login_success:
  assumes nomatch: "\<not> duressMatches env email' password"
    and signIn: "signInWithEmailAndPassword env email' password = Inr user"
    and digest: "subtle_digest env ''SHA-256'' (TextEncoder_encode env (email_asserted user)) =
                   Inr hashBuffer"
    and importKey: "subtle_importKey env ''PBKDF2'' (TextEncoder_encode env password) = Inr passwordKey"
    and deriveKey: "subtle_deriveKey env passwordKey (take 16 hashBuffer) PBKDF2_ITERATIONS = Inr mk"
    and profileDoc: "getDoc_users env (user_uid user) = Inr profile"
    and vaultDoc: "getDoc_keyVaults env (user_uid user) = Inr (Some vault)"
    and decrypts: "fst (decryptVault env mk vault w0) = Inr (pKey, secrets)"
  shows "fst (invoke (\<lambda>s. login env s email' password) w) = Inr () \<and>
         session (snd (invoke (\<lambda>s. login env s email' password) w)) =
           (session w)\<lparr>currentUser := Some user, userProfile := profile,
                        inMemVault := Some \<lparr>masterKey = mk, kyberPrivateKey = pKey,
                                            sharedSecrets = secrets\<rparr>,
                        isDecoyMode := False, loading := \<not> loading (session w)\<rparr>"
proof -
  let ?s = "session w"
  let ?w0 = "w\<lparr>session := ?s\<lparr>loading := True\<rparr>\<rparr>"
  from duress_no_match[OF nomatch, of ?w0] obtain cs0 where
    dc: "try_catch (duressCheck env email' password) (\<lambda>duressCheckError. resolve False) ?w0 =
           (Inr False, ?w0\<lparr>calls := calls ?w0 @ cs0\<rparr>)"
    by blast
  let ?pre = "cs0 @ [SignInWithEmailAndPassword email' password,
                     SubtleDigest ''SHA-256'' (TextEncoder_encode env (email_asserted user)),
                     SubtleImportKey ''PBKDF2'' (TextEncoder_encode env password),
                     SubtleDeriveKey passwordKey (take 16 hashBuffer) PBKDF2_ITERATIONS,
                     GetDoc ''users'' (user_uid user), GetDoc ''keyVaults'' (user_uid user)]"
  let ?w5 = "w\<lparr>session := ?s\<lparr>loading := True\<rparr>, calls := calls w @ ?pre\<rparr>"
  let ?handler = "\<lambda>err. await (logout env ?s) (\<lambda>_. throw (Error ''Invalid password.''))"
  obtain r w6 where d: "decryptVault env mk vault ?w5 = (r, w6)"
    by (cases "decryptVault env mk vault ?w5")
  have r: "r = Inr (pKey, secrets)"
    using decryptVault_fst[of env mk vault ?w5 w0] d decrypts by simp
  have s6: "session w6 = session ?w5"
    using keeps_decryptVault d unfolding keeps_session_def by (metis snd_conv)
  have tc: "try_catch (decryptVault env mk vault) ?handler ?w5 = (Inr (pKey, secrets), w6)"
    using d r by (simp add: try_catch_def)
  let ?w1 = "w\<lparr>session := ?s\<lparr>loading := True\<rparr>, calls := calls w @ cs0\<rparr>"
  have rl: "realLogin env ?s email' password ?w1 =
      (case try_catch (decryptVault env mk vault) ?handler ?w5 of
         (Inl e, w') \<Rightarrow> (Inl e, w')
       | (Inr x, w') \<Rightarrow>
           (case x of (pKey, secrets) \<Rightarrow>
              await (setCurrentUser (Some user))
                (\<lambda>_. await (setUserProfile profile)
                   (\<lambda>_. await (setInMemVault
                            (Some \<lparr>masterKey = mk, kyberPrivateKey = pKey, sharedSecrets = secrets\<rparr>))
                      (\<lambda>_. setIsDecoyMode False)))) w')"
    using signIn digest importKey deriveKey profileDoc vaultDoc
    by (simp add: realLogin_def getSaltForUser_def deriveMasterKey_def await_def external_def
        resolve_def Let_def)
  have lg: "invoke (\<lambda>s. login env s email' password) w =
      try_finally
        (try_catch (realLogin env ?s email' password) (\<lambda>realAuthError. throw realAuthError))
        (if loading ?s then setLoading False else resolve ()) ?w1"
    using dc by (simp add: invoke_def login_def await_def setters)
  have rl2: "realLogin env ?s email' password ?w1 =
      (Inr (), w6\<lparr>session := (session w6)\<lparr>currentUser := Some user, userProfile := profile,
                     inMemVault := Some \<lparr>masterKey = mk, kyberPrivateKey = pKey, sharedSecrets = secrets\<rparr>,
                     isDecoyMode := False\<rparr>\<rparr>)"
    unfolding rl tc by (simp add: await_def setters)
  show ?thesis
    unfolding lg
    by (cases "loading ?s")
      (simp_all add: try_finally_def try_catch_def rl2 s6 throw_def setters resolve_def)
qed

lemma login_signIn_rejected:
  assumes nomatch: "\<not> duressMatches env email' password"
    and signIn: "signInWithEmailAndPassword env email' password = Inl e"
  shows "fst (invoke (\<lambda>s. login env s email' password) w) = Inl e \<and>
         session (snd (invoke (\<lambda>s. login env s email' password) w)) =
           (session w)\<lparr>loading := \<not> loading (session w)\<rparr>"
proof -
  let ?s = "session w"
  let ?w0 = "w\<lparr>session := ?s\<lparr>loading := True\<rparr>\<rparr>"
  from duress_no_match[OF nomatch, of ?w0] obtain cs0 where
    dc: "try_catch (duressCheck env email' password) (\<lambda>duressCheckError. resolve False) ?w0 =
           (Inr False, ?w0\<lparr>calls := calls ?w0 @ cs0\<rparr>)"
    by blast
  let ?w1 = "w\<lparr>session := ?s\<lparr>loading := True\<rparr>, calls := calls w @ cs0\<rparr>"
  have lg: "invoke (\<lambda>s. login env s email' password) w =
      try_finally
        (try_catch (realLogin env ?s email' password) (\<lambda>realAuthError. throw realAuthError))
        (if loading ?s then setLoading False else resolve ()) ?w1"
    using dc by (simp add: invoke_def login_def await_def setters)
  have rl: "realLogin env ?s email' password ?w1 =
      (Inl e, ?w1\<lparr>calls := calls ?w1 @ [SignInWithEmailAndPassword email' password]\<rparr>)"
    using signIn by (simp add: realLogin_def await_def external_def)
  show ?thesis
    unfolding lg
    by (cases "loading ?s")
      (simp_all add: try_finally_def try_catch_def rl throw_def setters resolve_def)
qed

subsection \<open>Saving a secret\<close>

lemma decap_unlocked:
  assumes "inMemVault s = Some vault" "currentUser s = Some user" "\<not> isDecoyMode s"
  shows "decapAndSaveKey env s chatId ct =
           await (decapSharedSecret env (kyberPrivateKey vault) ct)
             (\<lambda>secret. save_step env vault user chatId secret ())"
  using assms by (simp add: decapAndSaveKey_def save_step_def Let_def await_resolve_unit)

lemma encap_unlocked:
  assumes "inMemVault s = Some vault" "currentUser s = Some user" "\<not> isDecoyMode s"
  shows "encapAndSaveKey env s chatId pk =
           await (encapSharedSecret env pk)
             (\<lambda>(secret, ciphertext). save_step env vault user chatId secret ciphertext)"
  using assms by (simp add: encapAndSaveKey_def save_step_def Let_def)

lemma save_step_effect:
  assumes sw: "session w1 = session w" and cw: "calls w1 = calls w @ cs0" "keyVault_writes cs0 = []"
    and v: "inMemVault (session w) = Some vault"
  shows "secret_update_effect env vault user chatId w
           (\<not> isl (fst (save_step env vault user chatId secret result w1)))
           (snd (save_step env vault user chatId secret result w1))"
proof -
  let ?newMap = "AList.update chatId secret (sharedSecrets vault)"
  let ?enc = "encryptWithAES env (masterKey vault) (JSON_stringify env ?newMap)"
  obtain r2 w2 where e: "?enc w1 = (r2, w2)"
    by (cases "?enc w1")
  from frame[OF nw_encryptWithAES keeps_encryptWithAES e]
  obtain cs1 where f: "session w2 = session w1" "calls w2 = calls w1 @ cs1" "keyVault_writes cs1 = []"
    by blast
  show ?thesis
  proof (cases r2)
    case (Inl err)
    then show ?thesis
      using e f sw cw
      by (auto simp: save_step_def await_def secret_update_effect_def keyVault_writes_append)
  next
    case (Inr packed)
    let ?payload = "[(''encryptedSharedSecrets'', packed)]"
    show ?thesis
    proof (cases "updateDoc_keyVaults env (user_uid user) ?payload")
      case (Inl err)
      then show ?thesis
        using e f sw cw Inr
        by (auto simp: save_step_def await_def external_def secret_update_effect_def
            keyVault_writes_append)
    next
      case (Inr u)
      have enc: "fst (?enc w1) = Inr packed"
        using e \<open>r2 = Inr packed\<close> by simp
      let ?U = "UpdateDoc ''keyVaults'' (user_uid user) ?payload"
      have run: "save_step env vault user chatId secret result w1 =
          (Inr result, w2\<lparr>calls := calls w2 @ [?U],
             session := (session w2)\<lparr>inMemVault := Some (vault\<lparr>sharedSecrets := ?newMap\<rparr>)\<rparr>\<rparr>)"
        using e f sw v Inr \<open>r2 = Inr packed\<close>
        by (simp add: save_step_def await_def external_def saveSecrets_def setState_def resolve_def)
      have c: "calls w2 @ [?U] = calls w @ (cs0 @ cs1 @ [?U])"
        using f cw by simp
      have k: "keyVault_writes (cs0 @ cs1 @ [?U]) = [(user_uid user, ?payload)]"
        using f cw by (simp add: keyVault_writes_append)
      show ?thesis
        unfolding secret_update_effect_def run
        apply (rule exI[of _ "cs0 @ cs1 @ [?U]"])
        using c k enc f sw by auto
    qed
  qed
qed

lemma decap_effect:
  assumes "inMemVault (session w) = Some vault" and "currentUser (session w) = Some user"
    and "\<not> isDecoyMode (session w)"
  shows "secret_update_effect env vault user chatId w
           (\<not> isl (fst (invoke (\<lambda>s. decapAndSaveKey env s chatId ciphertext) w)))
           (snd (invoke (\<lambda>s. decapAndSaveKey env s chatId ciphertext) w))"
proof -
  let ?d = "decapSharedSecret env (kyberPrivateKey vault) ciphertext"
  obtain r1 w1 where d: "?d w = (r1, w1)"
    by (cases "?d w")
  from frame[OF nw_decapSharedSecret keeps_decapSharedSecret d]
  obtain cs0 where f: "session w1 = session w" "calls w1 = calls w @ cs0" "keyVault_writes cs0 = []"
    by blast
  show ?thesis
  proof (cases r1)
    case (Inl err)
    then show ?thesis
      using d f by (simp add: invoke_def decap_unlocked[OF assms] await_def secret_update_effect_def)
  next
    case (Inr secret)
    then show ?thesis
      using d save_step_effect[OF f assms(1), of env user chatId secret "()"]
      by (simp add: invoke_def decap_unlocked[OF assms] await_def)
  qed
qed

lemma encap_effect:
  assumes "inMemVault (session w) = Some vault" and "currentUser (session w) = Some user"
    and "\<not> isDecoyMode (session w)"
  shows "secret_update_effect env vault user chatId w
           (\<not> isl (fst (invoke (\<lambda>s. encapAndSaveKey env s chatId recipientPublicKey) w)))
           (snd (invoke (\<lambda>s. encapAndSaveKey env s chatId recipientPublicKey) w))"
proof -
  let ?d = "encapSharedSecret env recipientPublicKey"
  obtain r1 w1 where d: "?d w = (r1, w1)"
    by (cases "?d w")
  from frame[OF nw_encapSharedSecret keeps_encapSharedSecret d]
  obtain cs0 where f: "session w1 = session w" "calls w1 = calls w @ cs0" "keyVault_writes cs0 = []"
    by blast
  show ?thesis
  proof (cases r1)
    case (Inl err)
    then show ?thesis
      using d f by (simp add: invoke_def encap_unlocked[OF assms] await_def secret_update_effect_def)
  next
    case (Inr p)
    obtain secret ct where p: "p = (secret, ct)"
      by (cases p)
    show ?thesis
      using d Inr p save_step_effect[OF f assms(1), of env user chatId secret ct]
      by (simp add: invoke_def encap_unlocked[OF assms] await_def)
  qed
qed

lemma save_step_saved:
  assumes sw: "session w1 = session w"
  shows "saved_after_write env w (save_step env vault user chatId secret result w1)"
proof -
  let ?newMap = "AList.update chatId secret (sharedSecrets vault)"
  let ?enc = "encryptWithAES env (masterKey vault) (JSON_stringify env ?newMap)"
  obtain r2 w2 where e: "?enc w1 = (r2, w2)"
    by (cases "?enc w1")
  have f: "session w2 = session w1"
    using keeps_encryptWithAES e unfolding keeps_session_def by (metis snd_conv)
  show ?thesis
  proof (cases r2)
    case (Inl err)
    then show ?thesis
      using e f sw by (simp add: save_step_def await_def saved_after_write_def)
  next
    case (Inr packed)
    let ?payload = "[(''encryptedSharedSecrets'', packed)]"
    show ?thesis
    proof (cases "updateDoc_keyVaults env (user_uid user) ?payload")
      case (Inl err)
      then show ?thesis
        using e f sw Inr by (simp add: save_step_def await_def external_def saved_after_write_def)
    next
      case (Inr u)
      then show ?thesis
        using e f sw \<open>r2 = Inr packed\<close>
        by (auto simp: save_step_def await_def external_def saved_after_write_def
            saveSecrets_def setState_def resolve_def)
    qed
  qed
qed

lemma saved_failed: "session w1 = session w \<Longrightarrow> saved_after_write env w (Inl e, w1)"
  by (simp add: saved_after_write_def)

lemma decap_saved: "saved_after_write env w (invoke (\<lambda>s. decapAndSaveKey env s chatId ct) w)"
proof (cases "inMemVault (session w) = None \<or> currentUser (session w) = None \<or> isDecoyMode (session w)")
  case True
  then show ?thesis
    by (auto simp: invoke_def decapAndSaveKey_def throw_def saved_failed split: option.splits)
next
  case False
  then obtain vault user where st: "inMemVault (session w) = Some vault"
    "currentUser (session w) = Some user" "\<not> isDecoyMode (session w)"
    by auto
  let ?d = "decapSharedSecret env (kyberPrivateKey vault) ct"
  obtain r1 w1 where d: "?d w = (r1, w1)"
    by (cases "?d w")
  have f: "session w1 = session w"
    using keeps_decapSharedSecret d unfolding keeps_session_def by (metis snd_conv)
  show ?thesis
  proof (cases r1)
    case (Inl err)
    then show ?thesis
      using d f by (simp add: invoke_def decap_unlocked[OF st] await_def saved_failed)
  next
    case (Inr secret)
    then show ?thesis
      using d save_step_saved[OF f, of env vault user chatId secret "()"]
      by (simp add: invoke_def decap_unlocked[OF st] await_def)
  qed
qed

lemma encap_saved: "saved_after_write env w (invoke (\<lambda>s. encapAndSaveKey env s chatId pk) w)"
proof (cases "inMemVault (session w) = None \<or> currentUser (session w) = None \<or> isDecoyMode (session w)")
  case True
  then show ?thesis
    by (auto simp: invoke_def encapAndSaveKey_def throw_def saved_failed split: option.splits)
next
  case False
  then obtain vault user where st: "inMemVault (session w) = Some vault"
    "currentUser (session w) = Some user" "\<not> isDecoyMode (session w)"
    by auto
  let ?d = "encapSharedSecret env pk"
  obtain r1 w1 where d: "?d w = (r1, w1)"
    by (cases "?d w")
  have f: "session w1 = session w"
    using keeps_encapSharedSecret d unfolding keeps_session_def by (metis snd_conv)
  show ?thesis
  proof (cases r1)
    case (Inl err)
    then show ?thesis
      using d f by (simp add: invoke_def encap_unlocked[OF st] await_def saved_failed)
  next
    case (Inr p)
    obtain secret c where p: "p = (secret, c)"
      by (cases p)
    show ?thesis
      using d Inr p save_step_saved[OF f, of env vault user chatId secret c]
      by (simp add: invoke_def encap_unlocked[OF st] await_def)
  qed
qed

subsection \<open>The toy platform meets the contracts\<close>

lemma toy_atob_btoa: "toy_atob (toy_btoa s) = Inr s"
proof (induction s)
  case Nil
  then show ?case
    by (simp add: toy_btoa_def)
next
  case (Cons c s)
  let ?n = "of_char c :: nat"
  have lt: "?n < 256"
    by simp
  have hi: "?n div 16 < 16"
    using lt by presburger
  have r: "?n div 16 * 16 + ?n mod 16 = ?n"
    by simp
  have a: "of_char (char_of (65 + ?n div 16)) = 65 + ?n div 16"
    using hi by simp
  have b: "of_char (char_of (65 + ?n mod 16)) = 65 + ?n mod 16"
    by simp
  from Cons show ?case
    using hi by (simp add: toy_btoa_def a b r Let_def)
qed




subsection \<open>Evaluation on the toy platform\<close>

text \<open>The fields of the variants, so that a proof need not unfold a whole platform.\<close>

lemma replicate_12: "replicate 12 x = [x, x, x, x, x, x, x, x, x, x, x, x]"
  by (simp add: numeral_eq_Suc)

lemma weak_fields:
  "btoa toy_env_weak_password = toy_btoa"
  "atob toy_env_weak_password = toy_atob"
  "TextEncoder_encode toy_env_weak_password = map charCodeAt"
  "TextDecoder_decode toy_env_weak_password = map fromCharCode"
  "JSON_stringify toy_env_weak_password = toy_stringify"
  "JSON_parse toy_env_weak_password = toy_parse"
  "getRandomValues toy_env_weak_password n len = replicate len (word_of_nat n)"
  "subtle_digest toy_env_weak_password alg m = Inr (take 32 (m @ replicate 32 0))"
  "subtle_importKey toy_env_weak_password alg raw = Inr (CryptoKey alg raw)"
  "subtle_deriveKey toy_env_weak_password = toy_deriveKey"
  "subtle_encrypt toy_env_weak_password = toy_encrypt"
  "subtle_decrypt toy_env_weak_password = toy_decrypt"
  "hashPasswordForStorage toy_env_weak_password p = Inr (''#'' @ p)"
  "getDocs_users_where_email toy_env_weak_password e =
     (if e = ''alice@example.com'' then Inr (Some alice) else Inr None)"
  "getDoc_users toy_env_weak_password u = (if u = ''u1'' then Inr (Some alice) else Inr None)"
  "getDoc_keyVaults toy_env_weak_password u = (if u = ''u1'' then Inr (Some alice_vault) else Inr None)"
  "updateDoc_keyVaults toy_env_weak_password u d =
     (if u = ''u1'' then Inr () else Inl (FirebaseError ''not-found''))"
  "signInWithEmailAndPassword toy_env_weak_password e p =
     (if e = ''alice@example.com'' \<and> p = ''correcthorse1'' then Inr alice_user
      else Inl (FirebaseError ''auth/invalid-credential''))"
  "signOut toy_env_weak_password = Inr ()"
  "reauthenticateWithCredential toy_env_weak_password usr e p =
     (if p = ''correcthorse1'' then Inr () else Inl (FirebaseError ''auth/wrong-password''))"
  "updatePassword toy_env_weak_password usr p =
     (if length p < 6 then Inl (FirebaseError ''auth/weak-password'') else Inr ())"
  by (simp_all add: toy_env_weak_password_def toy_env_def)

lemma rotated_fields:
  "btoa toy_env_rotated = toy_btoa"
  "atob toy_env_rotated = toy_atob"
  "TextEncoder_encode toy_env_rotated = map charCodeAt"
  "TextDecoder_decode toy_env_rotated = map fromCharCode"
  "JSON_parse toy_env_rotated = toy_parse"
  "subtle_digest toy_env_rotated alg m = Inr (take 32 (m @ replicate 32 0))"
  "subtle_importKey toy_env_rotated alg raw = Inr (CryptoKey alg raw)"
  "subtle_deriveKey toy_env_rotated = toy_deriveKey"
  "subtle_decrypt toy_env_rotated = toy_decrypt"
  "hashPasswordForStorage toy_env_rotated p = Inr (''#'' @ p)"
  "getDocs_users_where_email toy_env_rotated e =
     (if e = ''alice@example.com'' then Inr (Some alice) else Inr None)"
  "getDoc_users toy_env_rotated u = (if u = ''u1'' then Inr (Some alice) else Inr None)"
  "getDoc_keyVaults toy_env_rotated u = (if u = ''u1'' then Inr (Some rotated_vault) else Inr None)"
  "signInWithEmailAndPassword toy_env_rotated e p =
     (if e = ''alice@example.com'' \<and> p = ''correcthorse1'' then Inr alice_user
      else Inl (FirebaseError ''auth/invalid-credential''))"
  "signOut toy_env_rotated = Inr ()"
  by (simp_all add: toy_env_rotated_def toy_env_weak_password_def toy_env_def)

lemma toy_b64ToU8:
  assumes "atob env = toy_atob" and "toy_btoa (map fromCharCode bytes) = s"
  shows "b64ToU8 env s = resolve bytes"
proof -
  have "toy_atob s = Inr (map fromCharCode bytes)"
    using toy_atob_btoa[of "map fromCharCode bytes"] assms(2) by simp
  then show ?thesis
    using assms(1) by (simp add: b64ToU8_def b64ToU8_loop_eq comp_def charCodeAt_fromCharCode)
qed

lemma toy_u8ToB64:
  assumes "btoa env = toy_btoa" and "toy_btoa (map fromCharCode bytes) = s"
  shows "u8ToB64 env bytes = s"
  using assms by (simp add: u8ToB64_def u8ToB64_loop_eq)

lemmas btoa_eval = toy_btoa_def fromCharCode_def char_of_def bit_Suc_0_iff

lemma iv0: "toy_btoa (map fromCharCode [0, 0, 0, 0, 0, 0, 0, 0, 0, 0, 0, 0]) = ''AAAAAAAAAAAAAAAAAAAAAAAA''"
  by (simp add: btoa_eval)

lemma iv2: "toy_btoa (map fromCharCode [2, 2, 2, 2, 2, 2, 2, 2, 2, 2, 2, 2]) = ''ACACACACACACACACACACACAC''"
  by (simp add: btoa_eval)

lemma iv4: "toy_btoa (map fromCharCode [4, 4, 4, 4, 4, 4, 4, 4, 4, 4, 4, 4]) = ''AEAEAEAEAEAEAEAEAEAEAEAE''"
  by (simp add: btoa_eval)

lemma iv6: "toy_btoa (map fromCharCode [6, 6, 6, 6, 6, 6, 6, 6, 6, 6, 6, 6]) = ''AGAGAGAGAGAGAGAGAGAGAGAG''"
  by (simp add: btoa_eval)

lemma ct_pk_old:
  "toy_btoa (map fromCharCode
     [99, 111, 114, 114, 101, 99, 116, 104, 111, 114, 115, 101, 49, 97, 108, 105, 99, 101, 64, 101, 120,
      97, 109, 112, 108, 101, 46, 99, 111, 0, 0, 0, 0, 0, 0, 0, 0, 0, 0, 0, 0, 65, 66]) =
   ''GDGPHCHCGFGDHEGIGPHCHDGFDBGBGMGJGDGFEAGFHIGBGNHAGMGFCOGDGPAAAAAAAAAAAAAAAAAAAAAAAAEBEC''"
  by (simp add: btoa_eval)

lemma ct_ss_old:
  "toy_btoa (map fromCharCode
     [99, 111, 114, 114, 101, 99, 116, 104, 111, 114, 115, 101, 49, 97, 108, 105, 99, 101, 64, 101, 120,
      97, 109, 112, 108, 101, 46, 99, 111, 2, 2, 2, 2, 2, 2, 2, 2, 2, 2, 2, 2, 123, 125]) =
   ''GDGPHCHCGFGDHEGIGPHCHDGFDBGBGMGJGDGFEAGFHIGBGNHAGMGFCOGDGPACACACACACACACACACACACACHLHN''"
  by (simp add: btoa_eval)

lemma ct_pk_new:
  "toy_btoa (map fromCharCode
     [97, 98, 99, 97, 108, 105, 99, 101, 64, 101, 120, 97, 109, 112, 108, 101, 46, 99, 111,
      4, 4, 4, 4, 4, 4, 4, 4, 4, 4, 4, 4, 65, 66]) =
   ''GBGCGDGBGMGJGDGFEAGFHIGBGNHAGMGFCOGDGPAEAEAEAEAEAEAEAEAEAEAEAEEBEC''"
  by (simp add: btoa_eval)

lemma ct_ss_new:
  "toy_btoa (map fromCharCode
     [97, 98, 99, 97, 108, 105, 99, 101, 64, 101, 120, 97, 109, 112, 108, 101, 46, 99, 111,
      6, 6, 6, 6, 6, 6, 6, 6, 6, 6, 6, 6, 123, 125]) =
   ''GBGCGDGBGMGJGDGFEAGFHIGBGNHAGMGFCOGDGPAGAGAGAGAGAGAGAGAGAGAGAGHLHN''"
  by (simp add: btoa_eval)

lemma alice_key_bytes:
  "alice_key = CryptoKey ''AES-GCM''
     [99, 111, 114, 114, 101, 99, 116, 104, 111, 114, 115, 101, 49, 97, 108, 105, 99, 101, 64, 101, 120,
      97, 109, 112, 108, 101, 46, 99, 111]"
  by (simp add: alice_key_def charCodeAt_def)

text \<open>Decrypting Alice's record under her key.\<close>

lemma decrypt_alice_vault:
  assumes "atob env = toy_atob" and "subtle_decrypt env = toy_decrypt"
    and "TextDecoder_decode env = map fromCharCode" and "JSON_parse env = toy_parse"
  shows "fst (decryptVault env alice_key alice_vault w) = Inr (''AB'', [])"
proof -
  have s1: "split CHR '':'' (encryptedPrivateKey alice_vault) =
      [''AAAAAAAAAAAAAAAAAAAAAAAA'',
       ''GDGPHCHCGFGDHEGIGPHCHDGFDBGBGMGJGDGFEAGFHIGBGNHAGMGFCOGDGPAAAAAAAAAAAAAAAAAAAAAAAAEBEC'']"
    by (simp add: split_def alice_vault_def)
  have s2: "split CHR '':'' (encryptedSharedSecrets alice_vault) =
      [''ACACACACACACACACACACACAC'',
       ''GDGPHCHCGFGDHEGIGPHCHDGFDBGBGMGJGDGFEAGFHIGBGNHAGMGFCOGDGPACACACACACACACACACACACACHLHN'']"
    by (simp add: split_def alice_vault_def)
  note b = toy_b64ToU8[OF assms(1) iv0] toy_b64ToU8[OF assms(1) ct_pk_old]
    toy_b64ToU8[OF assms(1) iv2] toy_b64ToU8[OF assms(1) ct_ss_old]
  have d1: "decryptWithAES env alice_key (encryptedPrivateKey alice_vault) w =
      (Inr ''AB'', w\<lparr>calls := calls w @ [SubtleDecrypt alice_key [0, 0, 0, 0, 0, 0, 0, 0, 0, 0, 0, 0]
         [99, 111, 114, 114, 101, 99, 116, 104, 111, 114, 115, 101, 49, 97, 108, 105, 99, 101, 64, 101, 120,
          97, 109, 112, 108, 101, 46, 99, 111, 0, 0, 0, 0, 0, 0, 0, 0, 0, 0, 0, 0, 65, 66]]\<rparr>)" for w
    unfolding decryptWithAES_def s1 Let_def
    by (simp add: b assms await_def resolve_def external_def alice_key_bytes fromCharCode_def char_of_def
        bit_Suc_0_iff)
  have d2: "fst (decryptWithAES env alice_key (encryptedSharedSecrets alice_vault) w) = Inr ''{}''" for w
    unfolding decryptWithAES_def s2 Let_def
    by (simp add: b assms await_def resolve_def external_def alice_key_bytes fromCharCode_def char_of_def
        bit_Suc_0_iff)
  obtain r2 w2 where e2: "decryptWithAES env alice_key (encryptedSharedSecrets alice_vault)
      (w\<lparr>calls := calls w @ [SubtleDecrypt alice_key [0, 0, 0, 0, 0, 0, 0, 0, 0, 0, 0, 0]
         [99, 111, 114, 114, 101, 99, 116, 104, 111, 114, 115, 101, 49, 97, 108, 105, 99, 101, 64, 101, 120,
          97, 109, 112, 108, 101, 46, 99, 111, 0, 0, 0, 0, 0, 0, 0, 0, 0, 0, 0, 0, 65, 66]]\<rparr>) = (r2, w2)"
    by (cases "decryptWithAES env alice_key (encryptedSharedSecrets alice_vault)
      (w\<lparr>calls := calls w @ [SubtleDecrypt alice_key [0, 0, 0, 0, 0, 0, 0, 0, 0, 0, 0, 0]
         [99, 111, 114, 114, 101, 99, 116, 104, 111, 114, 115, 101, 49, 97, 108, 105, 99, 101, 64, 101, 120,
          97, 109, 112, 108, 101, 46, 99, 111, 0, 0, 0, 0, 0, 0, 0, 0, 0, 0, 0, 0, 65, 66]]\<rparr>)")
  have r2: "r2 = Inr ''{}''"
    using d2 e2 by (metis fst_conv)
  show ?thesis
    unfolding decryptVault_def
    by (simp add: await_def d1 e2 r2 assms toy_parse_def resolve_def)
qed

text \<open>Her key does not decrypt the rotated record.\<close>

lemma decrypt_rotated_vault:
  assumes "atob env = toy_atob" and "subtle_decrypt env = toy_decrypt"
  shows "isl (fst (decryptWithAES env alice_key (encryptedPrivateKey rotated_vault) w))"
proof -
  have s1: "split CHR '':'' (encryptedPrivateKey rotated_vault) =
      [''AEAEAEAEAEAEAEAEAEAEAEAE'',
       ''GBGCGDGBGMGJGDGFEAGFHIGBGNHAGMGFCOGDGPAEAEAEAEAEAEAEAEAEAEAEAEEBEC'']"
    by (simp add: split_def rotated_vault_def)
  note b = toy_b64ToU8[OF assms(1) iv4] toy_b64ToU8[OF assms(1) ct_pk_new]
  show ?thesis
    unfolding decryptWithAES_def s1 Let_def
    by (simp add: b assms await_def resolve_def external_def alice_key_bytes)
qed

text \<open>Alice's logins and her password change.\<close>

lemma lc_alice: "toLowerCase ''alice@example.com'' = ''alice@example.com''"
  by code_simp

lemma alice_login_hyps:
  fixes env :: env
  assumes "hashPasswordForStorage env password = Inr (''#'' @ password)"
    and "password \<noteq> ''duress''"
    and "getDocs_users_where_email env ''alice@example.com'' = Inr (Some alice)"
    and "TextEncoder_encode env = map charCodeAt"
    and "subtle_digest env ''SHA-256'' (map charCodeAt ''alice@example.com'') =
           Inr (take 32 (map charCodeAt ''alice@example.com'' @ replicate 32 0))"
    and "subtle_importKey env ''PBKDF2'' (map charCodeAt ''correcthorse1'') =
           Inr (CryptoKey ''PBKDF2'' (map charCodeAt ''correcthorse1''))"
    and "subtle_deriveKey env = toy_deriveKey"
    and "getDoc_users env ''u1'' = Inr (Some alice)"
  shows "\<not> duressMatches env ''alice@example.com'' password"
    and "subtle_digest env ''SHA-256'' (TextEncoder_encode env (email_asserted alice_user)) =
           Inr (take 32 (map charCodeAt ''alice@example.com'' @ replicate 32 0))"
    and "subtle_importKey env ''PBKDF2'' (TextEncoder_encode env ''correcthorse1'') =
           Inr (CryptoKey ''PBKDF2'' (map charCodeAt ''correcthorse1''))"
    and "subtle_deriveKey env (CryptoKey ''PBKDF2'' (map charCodeAt ''correcthorse1''))
           (take 16 (take 32 (map charCodeAt ''alice@example.com'' @ replicate 32 0)))
           PBKDF2_ITERATIONS = Inr alice_key"
    and "getDoc_users env (user_uid alice_user) = Inr (Some alice)"
proof -
  show "\<not> duressMatches env ''alice@example.com'' password"
    unfolding duressMatches_def lc_alice using assms(1-3) by (simp add: alice_def)
  show "subtle_digest env ''SHA-256'' (TextEncoder_encode env (email_asserted alice_user)) =
           Inr (take 32 (map charCodeAt ''alice@example.com'' @ replicate 32 0))"
    using assms(4,5) by (simp add: email_asserted_def alice_user_def)
  show "subtle_importKey env ''PBKDF2'' (TextEncoder_encode env ''correcthorse1'') =
           Inr (CryptoKey ''PBKDF2'' (map charCodeAt ''correcthorse1''))"
    using assms(4,6) by simp
  show "subtle_deriveKey env (CryptoKey ''PBKDF2'' (map charCodeAt ''correcthorse1''))
           (take 16 (take 32 (map charCodeAt ''alice@example.com'' @ replicate 32 0)))
           PBKDF2_ITERATIONS = Inr alice_key"
    using assms(7) by (simp add: alice_key_def)
  show "getDoc_users env (user_uid alice_user) = Inr (Some alice)"
    using assms(8) by (simp add: alice_user_def)
qed

lemma alice_signs_in:
  "fst (invoke (\<lambda>s. login toy_env_weak_password s ''alice@example.com'' ''correcthorse1'') w_signed_out) =
     Inr () \<and>
   session (snd (invoke (\<lambda>s. login toy_env_weak_password s ''alice@example.com'' ''correcthorse1'')
                   w_signed_out)) = alice_signed_in"
proof -
  have ne: "''correcthorse1'' \<noteq> ''duress''"
    by simp
  note h = alice_login_hyps[of toy_env_weak_password "''correcthorse1''", OF weak_fields(13) ne _
      weak_fields(3) weak_fields(8) weak_fields(9) weak_fields(10)]
  have q: "getDocs_users_where_email toy_env_weak_password ''alice@example.com'' = Inr (Some alice)"
    by (simp add: weak_fields)
  have u: "getDoc_users toy_env_weak_password ''u1'' = Inr (Some alice)"
    by (simp add: weak_fields)
  have si: "signInWithEmailAndPassword toy_env_weak_password ''alice@example.com'' ''correcthorse1'' =
      Inr alice_user"
    by (simp add: weak_fields)
  have v: "getDoc_keyVaults toy_env_weak_password (user_uid alice_user) = Inr (Some alice_vault)"
    by (simp add: weak_fields alice_user_def)
  note d = decrypt_alice_vault[of toy_env_weak_password w_signed_out, OF weak_fields(2) weak_fields(12)
      weak_fields(4) weak_fields(6)]
  from login_success[OF h(1)[OF q u] si h(2)[OF q u] h(3)[OF q u] h(4)[OF q u] h(5)[OF q u] v d,
      of w_signed_out]
  show ?thesis
    by (simp add: w_signed_out_def signed_out_def alice_signed_in_def)
qed

lemma rotation_fails:
  "fst (invoke (\<lambda>s. changePassword toy_env_weak_password s ''correcthorse1'' ''abc'') w_alice) =
     Inl (Error ''Vault re-encryption failed. Password not changed.'')"
  by (simp add: invoke_def changePassword_def await_def try_catch_def external_def external_at_def
      resolve_def throw_def getSaltForUser_def deriveMasterKey_def encryptWithAES_def Let_def
      weak_fields w_alice_def alice_signed_in_def alice_user_def)

lemma rotation_writes:
  "keyVault_writes (calls (snd (invoke (\<lambda>s. changePassword toy_env_weak_password s ''correcthorse1''
                                          ''abc'') w_alice))) =
     [(''u1'', [(''encryptedPrivateKey'', encryptedPrivateKey rotated_vault),
               (''encryptedSharedSecrets'', encryptedSharedSecrets rotated_vault)])]"
  by (simp add: invoke_def changePassword_def await_def try_catch_def external_def external_at_def
      resolve_def throw_def getSaltForUser_def deriveMasterKey_def encryptWithAES_def Let_def
      weak_fields w_alice_def alice_signed_in_def alice_user_def replicate_12 charCodeAt_def
      toy_u8ToB64[OF weak_fields(1) iv4] toy_u8ToB64[OF weak_fields(1) iv6]
      toy_u8ToB64[OF weak_fields(1) ct_pk_new] toy_u8ToB64[OF weak_fields(1) ct_ss_new]
      toy_stringify_def rotated_vault_def)


lemma rotation_record:
  "keyVault_after toy_env_weak_password ''u1''
     (keyVault_writes (calls (snd (invoke (\<lambda>s. changePassword toy_env_weak_password s ''correcthorse1''
                                             ''abc'') w_alice))))
     alice_vault = rotated_vault"
  unfolding rotation_writes by (simp add: weak_fields rotated_vault_def alice_vault_def)

lemma old_password_rejected:
  "fst (invoke (\<lambda>s. login toy_env_rotated s ''alice@example.com'' ''correcthorse1'') w_signed_out) =
     Inl (Error ''Invalid password.'')"
proof -
  have ne: "''correcthorse1'' \<noteq> ''duress''"
    by simp
  note h = alice_login_hyps[of toy_env_rotated "''correcthorse1''", OF rotated_fields(10) ne _
      rotated_fields(3) rotated_fields(6) rotated_fields(7) rotated_fields(8)]
  have q: "getDocs_users_where_email toy_env_rotated ''alice@example.com'' = Inr (Some alice)"
    by (simp add: rotated_fields)
  have u: "getDoc_users toy_env_rotated ''u1'' = Inr (Some alice)"
    by (simp add: rotated_fields)
  have si: "signInWithEmailAndPassword toy_env_rotated ''alice@example.com'' ''correcthorse1'' =
      Inr alice_user"
    by (simp add: rotated_fields)
  have v: "getDoc_keyVaults toy_env_rotated (user_uid alice_user) = Inr (Some rotated_vault)"
    by (simp add: rotated_fields alice_user_def)
  have d: "isl (fst (decryptWithAES toy_env_rotated alice_key (encryptedPrivateKey rotated_vault)
                       w_signed_out)) \<or>
           isl (fst (decryptWithAES toy_env_rotated alice_key (encryptedSharedSecrets rotated_vault)
                       w_signed_out))"
    using decrypt_rotated_vault[of toy_env_rotated w_signed_out, OF rotated_fields(2) rotated_fields(9)]
    by blast
  from login_decrypt_failure[OF h(1)[OF q u] si h(2)[OF q u] h(3)[OF q u] h(4)[OF q u]
      h(5)[OF q u] v d, of w_signed_out]
  show ?thesis
    by (simp add: w_signed_out_def signed_out_def rotated_fields)
qed

lemma new_password_rejected:
  "fst (invoke (\<lambda>s. login toy_env_rotated s ''alice@example.com'' ''abc'') w_signed_out) =
     Inl (FirebaseError ''auth/invalid-credential'')"
proof -
  have nm: "\<not> duressMatches toy_env_rotated ''alice@example.com'' ''abc''"
    unfolding duressMatches_def lc_alice by (simp add: rotated_fields alice_def)
  have si: "signInWithEmailAndPassword toy_env_rotated ''alice@example.com'' ''abc'' =
      Inl (FirebaseError ''auth/invalid-credential'')"
    by (simp add: rotated_fields)
  from login_signIn_rejected[OF nm si, of w_signed_out] show ?thesis
    by simp
qed

text \<open>A sign-in against the tampered record, with a sign-out that succeeds or rejects.\<close>

lemma tampered_hyps:
  fixes env :: env
  assumes e: "env = toy_env_tampered \<or> env = toy_env_signOut_rejects"
  shows "\<not> duressMatches env ''alice@example.com'' ''correcthorse1''"
    and "signInWithEmailAndPassword env ''alice@example.com'' ''correcthorse1'' = Inr alice_user"
    and "subtle_digest env ''SHA-256'' (TextEncoder_encode env (email_asserted alice_user)) =
           Inr (take 32 (map charCodeAt ''alice@example.com'' @ replicate 32 (0::byte)))"
    and "subtle_importKey env ''PBKDF2'' (TextEncoder_encode env ''correcthorse1'') =
           Inr (CryptoKey ''PBKDF2'' (map charCodeAt ''correcthorse1''))"
    and "subtle_deriveKey env (CryptoKey ''PBKDF2'' (map charCodeAt ''correcthorse1''))
           (take 16 (take 32 (map charCodeAt ''alice@example.com'' @ replicate 32 (0::byte))))
           PBKDF2_ITERATIONS =
         Inr (CryptoKey ''AES-GCM'' (map charCodeAt ''correcthorse1'' @
                take 16 (take 32 (map charCodeAt ''alice@example.com'' @ replicate 32 (0::byte)))))"
    and "getDoc_users env (user_uid alice_user) = Inr (Some alice)"
    and "getDoc_keyVaults env (user_uid alice_user) = Inr (Some tampered_vault)"
    and "isl (fst (decryptWithAES env (CryptoKey ''AES-GCM'' (map charCodeAt ''correcthorse1'' @
                take 16 (take 32 (map charCodeAt ''alice@example.com'' @ replicate 32 (0::byte)))))
                (encryptedPrivateKey tampered_vault) w_signed_out)) \<or>
         isl (fst (decryptWithAES env (CryptoKey ''AES-GCM'' (map charCodeAt ''correcthorse1'' @
                take 16 (take 32 (map charCodeAt ''alice@example.com'' @ replicate 32 (0::byte)))))
                (encryptedSharedSecrets tampered_vault) w_signed_out))"
proof -
  have lc: "toLowerCase ''alice@example.com'' = ''alice@example.com''"
    by code_simp
  show "\<not> duressMatches env ''alice@example.com'' ''correcthorse1''"
    using e unfolding duressMatches_def lc
    by (auto simp: toy_env_signOut_rejects_def toy_env_tampered_def toy_env_def alice_def)
  show "signInWithEmailAndPassword env ''alice@example.com'' ''correcthorse1'' = Inr alice_user"
    using e by (auto simp: toy_env_signOut_rejects_def toy_env_tampered_def toy_env_def)
  show "subtle_digest env ''SHA-256'' (TextEncoder_encode env (email_asserted alice_user)) =
           Inr (take 32 (map charCodeAt ''alice@example.com'' @ replicate 32 (0::byte)))"
    using e by (auto simp: toy_env_signOut_rejects_def toy_env_tampered_def toy_env_def
        email_asserted_def alice_user_def)
  show "subtle_importKey env ''PBKDF2'' (TextEncoder_encode env ''correcthorse1'') =
           Inr (CryptoKey ''PBKDF2'' (map charCodeAt ''correcthorse1''))"
    using e by (auto simp: toy_env_signOut_rejects_def toy_env_tampered_def toy_env_def)
  show "subtle_deriveKey env (CryptoKey ''PBKDF2'' (map charCodeAt ''correcthorse1''))
           (take 16 (take 32 (map charCodeAt ''alice@example.com'' @ replicate 32 (0::byte))))
           PBKDF2_ITERATIONS =
         Inr (CryptoKey ''AES-GCM'' (map charCodeAt ''correcthorse1'' @
                take 16 (take 32 (map charCodeAt ''alice@example.com'' @ replicate 32 (0::byte)))))"
    using e by (auto simp: toy_env_signOut_rejects_def toy_env_tampered_def toy_env_def)
  show "getDoc_users env (user_uid alice_user) = Inr (Some alice)"
    using e by (auto simp: toy_env_signOut_rejects_def toy_env_tampered_def toy_env_def alice_user_def)
  show "getDoc_keyVaults env (user_uid alice_user) = Inr (Some tampered_vault)"
    using e by (auto simp: toy_env_signOut_rejects_def toy_env_tampered_def)
  have "isl (fst (decryptWithAES env (CryptoKey ''AES-GCM'' (map charCodeAt ''correcthorse1'' @
                take 16 (take 32 (map charCodeAt ''alice@example.com'' @ replicate 32 (0::byte)))))
                (encryptedSharedSecrets tampered_vault) w_signed_out))"
    using e by (auto simp: monad_defs decryptWithAES_def b64ToU8_def split_def tampered_vault_def
        toy_env_signOut_rejects_def toy_env_tampered_def toy_env_def charCodeAt_def)
  then show "isl (fst (decryptWithAES env (CryptoKey ''AES-GCM'' (map charCodeAt ''correcthorse1'' @
                take 16 (take 32 (map charCodeAt ''alice@example.com'' @ replicate 32 (0::byte)))))
                (encryptedPrivateKey tampered_vault) w_signed_out)) \<or>
         isl (fst (decryptWithAES env (CryptoKey ''AES-GCM'' (map charCodeAt ''correcthorse1'' @
                take 16 (take 32 (map charCodeAt ''alice@example.com'' @ replicate 32 (0::byte)))))
                (encryptedSharedSecrets tampered_vault) w_signed_out))"
    by blast
qed

subsection \<open>Evaluation of the text codec\<close>









text \<open>
  The decoder on ill-formed input: a truncated sequence, an overlong form, a code point
  above U+10FFFF, an encoded surrogate, and a sequence cut by the end of the input.
\<close>

lemma utf8_decode_ill_formed:
  "utf8_decode [0xE2, 0x82, 0x41, 0xC0, 0xAF, 0xF4, 0x90, 0x80, 0xED, 0xA0, 0x80, 0xF0, 0x9F] =
     [0xFFFD, 0x41, 0xFFFD, 0xFFFD, 0xFFFD, 0xFFFD, 0xFFFD, 0xFFFD, 0xFFFD, 0xFFFD, 0xFFFD]"
  by (simp add: utf8_decode_def code_units_def)







section \<open>The claims\<close>

subsection \<open>C1: the duress path never unlocks the vault\<close>

text \<open>
  Claim C1. When the profile found for the entered email carries a (non-empty)
  \<^verbatim>\<open>duressHash\<close> and the hash of the entered password equals it, \<^verbatim>\<open>login\<close> succeeds with
  the decoy session: the only calls it makes are the profile query and the hash of the
  password (no sign-in, no read of the vault record, no key derivation, no decryption),
  the vault in memory is null and the decoy flag is set. From the world it leaves, every
  sequence of the vault-dependent operations (\<^verbatim>\<open>getChatKey\<close>, \<^verbatim>\<open>decapAndSaveKey\<close>,
  \<^verbatim>\<open>encapAndSaveKey\<close>, \<^verbatim>\<open>changePassword\<close>) leaves that world as it is: no further call,
  the vault still null, the decoy flag still set.
\<close>

theorem duress_login_isolation:
  assumes "getDocs_users_where_email env (toLowerCase email') = Inr (Some profile)"
    and "duressHash profile = Some storedHash" and "storedHash \<noteq> []"
    and "hashPasswordForStorage env password = Inr storedHash"
  shows "invoke (\<lambda>s. login env s email' password) w =
      (Inr (),
       \<lparr>calls = calls w @ [GetDocs ''users'' ''email'' (toLowerCase email'),
                           HashPasswordForStorage password],
        session = \<lparr>currentUser = Some \<lparr>user_uid = uid profile, user_email = Some (email profile),
                                        emailVerified = True\<rparr>,
                   userProfile = Some profile, loading = False, inMemVault = None,
                   isDecoyMode = True\<rparr>\<rparr>) \<and>
     (\<forall>ops. run_ops env ops (snd (invoke (\<lambda>s. login env s email' password) w)) =
              snd (invoke (\<lambda>s. login env s email' password) w))"
  using duress_login[OF assms, of w] by (simp add: run_ops_locked)

text \<open>Alice enters her duress password, with her email in another letter case.\<close>

theorem duress_login_isolation_witness:
  "invoke (\<lambda>s. login toy_env s ''Alice@Example.com'' ''duress'') w_signed_out =
      (Inr (),
       \<lparr>calls = [GetDocs ''users'' ''email'' ''alice@example.com'', HashPasswordForStorage ''duress''],
        session = \<lparr>currentUser = Some \<lparr>user_uid = ''u1'', user_email = Some ''alice@example.com'',
                                        emailVerified = True\<rparr>,
                   userProfile = Some alice, loading = False, inMemVault = None,
                   isDecoyMode = True\<rparr>\<rparr>) \<and>
   run_ops toy_env
       [GetChatKey ''chat0'', DecapAndSaveKey ''chat1'' ''AD'', EncapAndSaveKey ''chat1'' ''AB'',
        ChangePassword ''duress'' ''x'']
       (snd (invoke (\<lambda>s. login toy_env s ''Alice@Example.com'' ''duress'') w_signed_out)) =
      snd (invoke (\<lambda>s. login toy_env s ''Alice@Example.com'' ''duress'') w_signed_out)"
proof -
  have lc: "toLowerCase ''Alice@Example.com'' = ''alice@example.com''"
    by code_simp
  have h1: "getDocs_users_where_email toy_env (toLowerCase ''Alice@Example.com'') = Inr (Some alice)"
    unfolding lc by (simp add: toy_env_def)
  have h2: "duressHash alice = Some ''#duress''"
    by (simp add: alice_def)
  have h3: "''#duress'' \<noteq> []"
    by simp
  have h4: "hashPasswordForStorage toy_env ''duress'' = Inr ''#duress''"
    by (simp add: toy_env_def)
  note T = duress_login_isolation[OF h1 h2 h3 h4, of w_signed_out]
  from T have A: "invoke (\<lambda>s. login toy_env s ''Alice@Example.com'' ''duress'') w_signed_out =
      (Inr (),
       \<lparr>calls = [GetDocs ''users'' ''email'' ''alice@example.com'', HashPasswordForStorage ''duress''],
        session = \<lparr>currentUser = Some \<lparr>user_uid = ''u1'', user_email = Some ''alice@example.com'',
                                        emailVerified = True\<rparr>,
                   userProfile = Some alice, loading = False, inMemVault = None,
                   isDecoyMode = True\<rparr>\<rparr>)"
    by (simp add: lc w_signed_out_def alice_def)
  from T have B: "run_ops toy_env
       [GetChatKey ''chat0'', DecapAndSaveKey ''chat1'' ''AD'', EncapAndSaveKey ''chat1'' ''AB'',
        ChangePassword ''duress'' ''x'']
       (snd (invoke (\<lambda>s. login toy_env s ''Alice@Example.com'' ''duress'') w_signed_out)) =
      snd (invoke (\<lambda>s. login toy_env s ''Alice@Example.com'' ''duress'') w_signed_out)"
    by blast
  show ?thesis
    using A B by blast
qed

subsection \<open>C2: what a secret update writes\<close>

text \<open>
  As stated, claim C2 fails: the record written by \<^verbatim>\<open>decapAndSaveKey\<close> has one field.
  In the unlocked session of Alice, the field names of the writes of one run are:
\<close>

theorem vault_write_one_field_counterexample:
  "map (map fst \<circ> snd)
     (keyVault_writes
        (calls (snd (invoke (\<lambda>s. decapAndSaveKey toy_env s ''chat1'' ''AD'') w_unlocked)))) =
   [[''encryptedSharedSecrets'']]"
  by (simp add: monad_defs decapAndSaveKey_def decapSharedSecret_def encryptWithAES_def b64ToU8_def
      saveSecrets_def toy_defs Let_def)

text \<open>
  Claim C2, amended. In an unlocked session outside decoy mode, \<^verbatim>\<open>decapAndSaveKey\<close> and
  \<^verbatim>\<open>encapAndSaveKey\<close> write the vault record by an update of the single field
  \<^verbatim>\<open>encryptedSharedSecrets\<close>, never of \<^verbatim>\<open>encryptedPrivateKey\<close>. A run that succeeds makes
  exactly one such write; its value is a fresh encryption, under the master key in
  memory, of the serialisation of the whole new map (the old map with the one entry put
  at the chat id), and the vault in memory then holds that map. A run that fails makes no
  write or that one write, and leaves the state as it was.
\<close>

theorem secret_update_writes_one_field:
  assumes "inMemVault (session w) = Some vault" and "currentUser (session w) = Some user"
    and "\<not> isDecoyMode (session w)"
  shows "secret_update_effect env vault user chatId w
           (\<not> isl (fst (invoke (\<lambda>s. decapAndSaveKey env s chatId ciphertext) w)))
           (snd (invoke (\<lambda>s. decapAndSaveKey env s chatId ciphertext) w)) \<and>
         secret_update_effect env vault user chatId w
           (\<not> isl (fst (invoke (\<lambda>s. encapAndSaveKey env s chatId recipientPublicKey) w)))
           (snd (invoke (\<lambda>s. encapAndSaveKey env s chatId recipientPublicKey) w))"
  using decap_effect[OF assms] encap_effect[OF assms] by blast

theorem secret_update_writes_one_field_witness:
  "inMemVault (session w_unlocked) = Some unlocked_vault \<and>
   currentUser (session w_unlocked) = Some alice_user \<and>
   \<not> isDecoyMode (session w_unlocked) \<and>
   fst (invoke (\<lambda>s. decapAndSaveKey toy_env s ''chat1'' ''AD'') w_unlocked) = Inr () \<and>
   secret_update_effect toy_env unlocked_vault alice_user ''chat1'' w_unlocked
      (\<not> isl (fst (invoke (\<lambda>s. decapAndSaveKey toy_env s ''chat1'' ''AD'') w_unlocked)))
      (snd (invoke (\<lambda>s. decapAndSaveKey toy_env s ''chat1'' ''AD'') w_unlocked)) \<and>
   secret_update_effect toy_env unlocked_vault alice_user ''chat1'' w_unlocked
      (\<not> isl (fst (invoke (\<lambda>s. encapAndSaveKey toy_env s ''chat1'' ''AD'') w_unlocked)))
      (snd (invoke (\<lambda>s. encapAndSaveKey toy_env s ''chat1'' ''AD'') w_unlocked))"
proof -
  have h1: "inMemVault (session w_unlocked) = Some unlocked_vault"
    by (simp add: w_unlocked_def unlocked_def)
  have h2: "currentUser (session w_unlocked) = Some alice_user"
    by (simp add: w_unlocked_def unlocked_def)
  have h3: "\<not> isDecoyMode (session w_unlocked)"
    by (simp add: w_unlocked_def unlocked_def)
  have ok: "fst (invoke (\<lambda>s. decapAndSaveKey toy_env s ''chat1'' ''AD'') w_unlocked) = Inr ()"
    by (simp add: monad_defs decapAndSaveKey_def decapSharedSecret_def encryptWithAES_def b64ToU8_def
        saveSecrets_def toy_defs Let_def)
  show ?thesis
    using secret_update_writes_one_field[OF h1 h2 h3, of toy_env "''chat1''" "''AD''" "''AD''"]
      h1 h2 h3 ok
    by blast
qed

subsection \<open>C3: the vault operations outside an unlocked session\<close>

text \<open>
  As stated, claim C3 fails: with no vault in memory, and in decoy mode, \<^verbatim>\<open>getChatKey\<close>
  resolves to \<^verbatim>\<open>null\<close> and does not fail; and in the decoy session \<^verbatim>\<open>decapAndSaveKey\<close>
  fails with the error of a locked vault, not with the one of decoy mode.
\<close>

theorem getChatKey_locked_counterexample:
  "invoke (\<lambda>s. getChatKey toy_env s ''chat0'') w_signed_out = (Inr None, w_signed_out) \<and>
   invoke (\<lambda>s. getChatKey toy_env s ''chat0'') w_decoy = (Inr None, w_decoy) \<and>
   invoke (\<lambda>s. decapAndSaveKey toy_env s ''chat1'' ''AD'') w_decoy =
     (Inl (Error ''Vault locked.''), w_decoy)"
  by (simp add: monad_defs getChatKey_def decapAndSaveKey_def toy_defs)

text \<open>
  Claim C3, amended. In every state with no vault in memory or with the decoy flag set,
  none of the four operations makes a call or changes the state. \<^verbatim>\<open>getChatKey\<close> does not
  fail: it resolves to \<^verbatim>\<open>null\<close>. \<^verbatim>\<open>decapAndSaveKey\<close> and \<^verbatim>\<open>encapAndSaveKey\<close> fail with
  \<^verbatim>\<open>Vault locked.\<close> when the vault or the user is absent (so also in a decoy session, whose
  vault is null) and with \<^verbatim>\<open>Cannot use crypto in decoy mode.\<close> otherwise.
  \<^verbatim>\<open>changePassword\<close> fails with \<^verbatim>\<open>User not fully authenticated.\<close> when the vault, the user
  or the user's email is absent and with \<^verbatim>\<open>Cannot change password in decoy mode.\<close>
  otherwise.
\<close>

theorem vault_ops_outside_unlocked:
  assumes "inMemVault (session w) = None \<or> isDecoyMode (session w)"
  shows "invoke (\<lambda>s. getChatKey env s chatId) w = (Inr None, w) \<and>
     invoke (\<lambda>s. decapAndSaveKey env s chatId ciphertext) w =
       (Inl (Error (if inMemVault (session w) = None \<or> currentUser (session w) = None
                    then ''Vault locked.'' else ''Cannot use crypto in decoy mode.'')), w) \<and>
     invoke (\<lambda>s. encapAndSaveKey env s chatId recipientPublicKey) w =
       (Inl (Error (if inMemVault (session w) = None \<or> currentUser (session w) = None
                    then ''Vault locked.'' else ''Cannot use crypto in decoy mode.'')), w) \<and>
     invoke (\<lambda>s. changePassword env s currentPassword newPassword) w =
       (Inl (Error (if inMemVault (session w) = None \<or>
                       (case currentUser (session w) of
                          None \<Rightarrow> True
                        | Some user \<Rightarrow> user_email user = None \<or> user_email user = Some [])
                    then ''User not fully authenticated.''
                    else ''Cannot change password in decoy mode.'')), w)"
  using assms
  by (auto simp: invoke_def getChatKey_def decapAndSaveKey_def encapAndSaveKey_def changePassword_def
      resolve_def throw_def split: option.splits)

theorem vault_ops_outside_unlocked_witness:
  "inMemVault (session w_decoy) = None \<and> isDecoyMode (session w_decoy) \<and>
   invoke (\<lambda>s. getChatKey toy_env s ''chat0'') w_decoy = (Inr None, w_decoy) \<and>
   invoke (\<lambda>s. decapAndSaveKey toy_env s ''chat1'' ''AD'') w_decoy =
     (Inl (Error ''Vault locked.''), w_decoy) \<and>
   invoke (\<lambda>s. encapAndSaveKey toy_env s ''chat1'' ''AB'') w_decoy =
     (Inl (Error ''Vault locked.''), w_decoy) \<and>
   invoke (\<lambda>s. changePassword toy_env s ''duress'' ''new'') w_decoy =
     (Inl (Error ''User not fully authenticated.''), w_decoy)"
proof -
  have h: "inMemVault (session w_decoy) = None \<or> isDecoyMode (session w_decoy)"
    by (simp add: w_decoy_def decoy_def)
  have v: "inMemVault (session w_decoy) = None" "isDecoyMode (session w_decoy)"
    by (simp_all add: w_decoy_def decoy_def)
  show ?thesis
    using vault_ops_outside_unlocked[OF h, of toy_env "''chat0''"]
      vault_ops_outside_unlocked[OF h, of toy_env "''chat1''" "''AD''" "''AB''" "''duress''" "''new''"] v
    by simp
qed

subsection \<open>C4: the salt\<close>

text \<open>The digest of the three bytes of \<^verbatim>\<open>abc\<close>, the first example of the standard.\<close>

lemma sha256_abc:
  "sha256 [0x61, 0x62, 0x63] =
     [0xba, 0x78, 0x16, 0xbf, 0x8f, 0x01, 0xcf, 0xea, 0x41, 0x41, 0x40, 0xde, 0x5d, 0xae, 0x22, 0x23,
      0xb0, 0x03, 0x61, 0xa3, 0x96, 0x17, 0x7a, 0x9c, 0xb4, 0x10, 0xff, 0x61, 0xf2, 0x00, 0x15, 0xad]"
  by code_simp

text \<open>
  As stated, claim C4 fails: \<^verbatim>\<open>getSaltForUser\<close> hashes the email as it is given, so two
  emails that differ only in letter case get different salts. With SHA-256 as digest:
\<close>

theorem salt_case_sensitive_counterexample:
  "toLowerCase ''Alice@example.com'' = toLowerCase ''alice@example.com'' \<and>
   fst (getSaltForUser sha_env ''Alice@example.com'' w_signed_out) =
     Inr [0xcd, 0xbc, 0x73, 0xc2, 0x37, 0x1c, 0x82, 0xa2, 0x1a, 0x4e, 0xe7, 0x26, 0x7f, 0xa1, 0xe4, 0x9e] \<and>
   fst (getSaltForUser sha_env ''alice@example.com'' w_signed_out) =
     Inr [0xff, 0x8d, 0x98, 0x19, 0xfc, 0x0e, 0x12, 0xbf, 0x0d, 0x24, 0x89, 0x2e, 0x45, 0x98, 0x7e, 0x24] \<and>
   fst (getSaltForUser sha_env ''Alice@example.com'' w_signed_out) \<noteq>
     fst (getSaltForUser sha_env ''alice@example.com'' w_signed_out)"
proof -
  have lc: "toLowerCase ''Alice@example.com'' = toLowerCase ''alice@example.com''"
    by code_simp
  have A: "take 16 (sha256 (map charCodeAt ''Alice@example.com'')) =
     [0xcd, 0xbc, 0x73, 0xc2, 0x37, 0x1c, 0x82, 0xa2, 0x1a, 0x4e, 0xe7, 0x26, 0x7f, 0xa1, 0xe4, 0x9e]"
    by code_simp
  have B: "take 16 (sha256 (map charCodeAt ''alice@example.com'')) =
     [0xff, 0x8d, 0x98, 0x19, 0xfc, 0x0e, 0x12, 0xbf, 0x0d, 0x24, 0x89, 0x2e, 0x45, 0x98, 0x7e, 0x24]"
    by code_simp
  have sA: "fst (getSaltForUser sha_env ''Alice@example.com'' w_signed_out) =
     Inr (take 16 (sha256 (map charCodeAt ''Alice@example.com'')))"
    by (simp add: getSaltForUser_def await_def external_def resolve_def sha_env_def toy_env_def Let_def)
  have sB: "fst (getSaltForUser sha_env ''alice@example.com'' w_signed_out) =
     Inr (take 16 (sha256 (map charCodeAt ''alice@example.com'')))"
    by (simp add: getSaltForUser_def await_def external_def resolve_def sha_env_def toy_env_def Let_def)
  show ?thesis
    unfolding sA sB A B using lc by simp
qed

text \<open>
  Claim C4, amended. The salt is the first 16 bytes of the SHA-256 digest of the encoded
  email exactly as it is passed, with no change of letter case (and the rejection of the
  digest, if it rejects); the one call made is that digest. It depends on nothing but the
  platform and the email: repeated calls on the same email give the same salt.
\<close>

theorem salt_is_truncated_digest:
  "getSaltForUser env e w =
     (case subtle_digest env ''SHA-256'' (TextEncoder_encode env e) of
        Inl err \<Rightarrow> Inl err
      | Inr hashBuffer \<Rightarrow> Inr (take 16 hashBuffer),
      w\<lparr>calls := calls w @ [SubtleDigest ''SHA-256'' (TextEncoder_encode env e)]\<rparr>) \<and>
   fst (getSaltForUser env e w) = fst (getSaltForUser env e w')"
  by (simp add: getSaltForUser_def await_def external_def resolve_def Let_def split: sum.splits)

theorem salt_is_truncated_digest_witness:
  "fst (getSaltForUser toy_env ''alice@example.com'' w_signed_out) =
     fst (getSaltForUser toy_env ''alice@example.com'' w_unlocked) \<and>
   calls (snd (getSaltForUser toy_env ''alice@example.com'' w_signed_out)) =
     [SubtleDigest ''SHA-256'' (TextEncoder_encode toy_env ''alice@example.com'')]"
proof -
  note T = salt_is_truncated_digest[of toy_env "''alice@example.com''" w_signed_out w_unlocked]
  from T have A: "fst (getSaltForUser toy_env ''alice@example.com'' w_signed_out) =
     fst (getSaltForUser toy_env ''alice@example.com'' w_unlocked)"
    by blast
  from T have "snd (getSaltForUser toy_env ''alice@example.com'' w_signed_out) =
     w_signed_out\<lparr>calls := calls w_signed_out @
        [SubtleDigest ''SHA-256'' (TextEncoder_encode toy_env ''alice@example.com'')]\<rparr>"
    by simp
  then have B: "calls (snd (getSaltForUser toy_env ''alice@example.com'' w_signed_out)) =
     [SubtleDigest ''SHA-256'' (TextEncoder_encode toy_env ''alice@example.com'')]"
    by (simp add: w_signed_out_def)
  show ?thesis
    using A B by blast
qed

subsection \<open>C5: a failed unlock at login, when the sign-out rejects\<close>

text \<open>
  Claim C5 at a failing input. Alice signs in with her password; the identity provider
  accepts it, but the second field of her vault record does not decrypt (it was tampered
  with). The \<^verbatim>\<open>catch\<close> block of \<^verbatim>\<open>login\<close> is \<^verbatim>\<open>await logout(); throw new Error("Invalid password.")\<close>.
  When the sign-out succeeds, the caller gets \<^verbatim>\<open>Invalid password.\<close>, as the claim says.
  When the sign-out itself rejects (here with \<^verbatim>\<open>auth/network-request-failed\<close>), the
  \<^verbatim>\<open>throw\<close> is never reached and the caller gets the error of the sign-out instead. In
  both cases no vault is installed. The earlier version of \<^verbatim>\<open>login\<close> does the same.
\<close>

theorem login_rejected_signOut_masks_error:
  "fst (invoke (\<lambda>s. login toy_env_tampered s ''alice@example.com'' ''correcthorse1'') w_signed_out) =
     Inl (Error ''Invalid password.'') \<and>
   fst (invoke (\<lambda>s. login toy_env_signOut_rejects s ''alice@example.com'' ''correcthorse1'') w_signed_out) =
     Inl (FirebaseError ''auth/network-request-failed'') \<and>
   inMemVault (session (snd (invoke (\<lambda>s. login toy_env_signOut_rejects s ''alice@example.com''
                                       ''correcthorse1'') w_signed_out))) = None \<and>
   fst (login_earlier toy_env_tampered ''alice@example.com'' ''correcthorse1'' w_signed_out) =
     Inl (Error ''Invalid password.'') \<and>
   fst (login_earlier toy_env_signOut_rejects ''alice@example.com'' ''correcthorse1'' w_signed_out) =
     Inl (FirebaseError ''auth/network-request-failed'') \<and>
   inMemVault (session (snd (login_earlier toy_env_signOut_rejects ''alice@example.com''
                               ''correcthorse1'' w_signed_out))) = None"
proof -
  have t: "toy_env_tampered = toy_env_tampered \<or> toy_env_tampered = toy_env_signOut_rejects"
    by simp
  have r: "toy_env_signOut_rejects = toy_env_tampered \<or> toy_env_signOut_rejects = toy_env_signOut_rejects"
    by simp
  note ht = tampered_hyps[OF t]
  note hr = tampered_hyps[OF r]
  have so: "signOut toy_env_tampered = Inr ()"
    "signOut toy_env_signOut_rejects = Inl (FirebaseError ''auth/network-request-failed'')"
    by (simp_all add: toy_env_signOut_rejects_def toy_env_tampered_def toy_env_def)
  have nd: "\<not> isDecoyMode (session w_signed_out)" "inMemVault (session w_signed_out) = None"
    by (simp_all add: w_signed_out_def signed_out_def)
  show ?thesis
    using login_decrypt_failure[OF ht, of w_signed_out]
      login_decrypt_failure[OF hr, of w_signed_out]
      login_earlier_decrypt_failure[OF ht(2-8), of w_signed_out]
      login_earlier_decrypt_failure[OF hr(2-8), of w_signed_out]
    by (simp add: so nd)
qed

subsection \<open>C6: a password change that fails after the record was written\<close>

text \<open>
  Claim C6 at a failing input. Alice signs in with \<^verbatim>\<open>correcthorse1\<close> and asks for the new
  password \<^verbatim>\<open>abc\<close>, which the identity provider refuses as too weak. \<^verbatim>\<open>changePassword\<close>
  rejects with \<^verbatim>\<open>Vault re-encryption failed. Password not changed.\<close> and the state of the
  session is the one before the call, with the old master key: that part of the claim
  holds. But \<^verbatim>\<open>updateDoc\<close> ran before \<^verbatim>\<open>updatePassword\<close> and nothing undoes it: the store
  now holds both fields encrypted under the key of \<^verbatim>\<open>abc\<close>. At her next sign-in the old
  password is accepted by the identity provider and fails to decrypt the record
  (\<^verbatim>\<open>Invalid password.\<close>), and the new password is refused by the identity provider: the
  failed change has locked her out.
\<close>

theorem failed_rotation_locks_out:
  "(fst (invoke (\<lambda>s. login toy_env_weak_password s ''alice@example.com'' ''correcthorse1'')
           w_signed_out) = Inr () \<and>
    session (snd (invoke (\<lambda>s. login toy_env_weak_password s ''alice@example.com'' ''correcthorse1'')
                    w_signed_out)) = alice_signed_in) \<and>
   (fst (invoke (\<lambda>s. changePassword toy_env_weak_password s ''correcthorse1'' ''abc'') w_alice) =
      Inl (Error ''Vault re-encryption failed. Password not changed.'') \<and>
    session (snd (invoke (\<lambda>s. changePassword toy_env_weak_password s ''correcthorse1'' ''abc'')
                    w_alice)) = alice_signed_in \<and>
    keyVault_after toy_env_weak_password ''u1''
      (keyVault_writes (calls (snd (invoke (\<lambda>s. changePassword toy_env_weak_password s
                                              ''correcthorse1'' ''abc'') w_alice))))
      alice_vault = rotated_vault) \<and>
   fst (invoke (\<lambda>s. login toy_env_rotated s ''alice@example.com'' ''correcthorse1'') w_signed_out) =
     Inl (Error ''Invalid password.'') \<and>
   fst (invoke (\<lambda>s. login toy_env_rotated s ''alice@example.com'' ''abc'') w_signed_out) =
     Inl (FirebaseError ''auth/invalid-credential'')"
proof -
  have "isl (fst (invoke (\<lambda>s. changePassword toy_env_weak_password s ''correcthorse1'' ''abc'') w_alice))"
    by (simp add: rotation_fails)
  from changePassword_rejected_session[OF this]
  have s: "session (snd (invoke (\<lambda>s. changePassword toy_env_weak_password s ''correcthorse1'' ''abc'')
                    w_alice)) = alice_signed_in"
    by (simp add: w_alice_def)
  show ?thesis
    using alice_signs_in rotation_fails s rotation_record old_password_rejected new_password_rejected
    by blast
qed

subsection \<open>C7: what decryption gives back\<close>




subsection \<open>C8: a malformed packed ciphertext is rejected first\<close>

text \<open>
  Claim C8. For every input of \<^verbatim>\<open>decryptWithAES\<close> that does not split on the colon into
  exactly two segments, the function rejects with \<^verbatim>\<open>Invalid encrypted data format\<close> and
  leaves the world as it found it: no Base64 decoding, no call of the cipher, and never a
  plaintext.
\<close>

theorem decrypt_rejects_malformed:
  assumes "length (split CHR '':'' encryptedData) \<noteq> 2"
  shows "decryptWithAES env key encryptedData w = (Inl (Error ''Invalid encrypted data format''), w)"
  using assms by (simp add: decryptWithAES_def throw_def)

theorem decrypt_rejects_malformed_witness:
  "length (split CHR '':'' ''no-separator'') \<noteq> 2 \<and>
   decryptWithAES toy_env (CryptoKey ''AES-GCM'' [1, 2, 3]) ''no-separator'' w_signed_out =
     (Inl (Error ''Invalid encrypted data format''), w_signed_out) \<and>
   length (split CHR '':'' ''a:b:c'') \<noteq> 2 \<and>
   decryptWithAES toy_env (CryptoKey ''AES-GCM'' [1, 2, 3]) ''a:b:c'' w_signed_out =
     (Inl (Error ''Invalid encrypted data format''), w_signed_out)"
proof -
  have h1: "length (split CHR '':'' ''no-separator'') \<noteq> 2"
    by (simp add: split_def)
  have h2: "length (split CHR '':'' ''a:b:c'') \<noteq> 2"
    by (simp add: split_def)
  show ?thesis
    using decrypt_rejects_malformed[OF h1] decrypt_rejects_malformed[OF h2] h1 h2 by blast
qed

subsection \<open>C9: logout in decoy mode and in a real session\<close>

text \<open>
  Claim C9. In decoy mode \<^verbatim>\<open>logout\<close> makes no call: it clears the current user, the
  profile, the vault in memory and the decoy flag, and resolves. Outside decoy mode it
  makes the one call \<^verbatim>\<open>signOut\<close>, returns what that call returns, and writes no state
  itself.
\<close>

theorem logout_decoy_vs_real:
  "(isDecoyMode (session w) \<longrightarrow>
      invoke (logout env) w =
        (Inr (), w\<lparr>session := (session w)\<lparr>currentUser := None, userProfile := None,
                      inMemVault := None, isDecoyMode := False\<rparr>\<rparr>)) \<and>
   (\<not> isDecoyMode (session w) \<longrightarrow>
      invoke (logout env) w = (signOut env, w\<lparr>calls := calls w @ [SignOut]\<rparr>))"
  by (simp add: invoke_def logout_def await_def setCurrentUser_def setUserProfile_def setInMemVault_def
      setIsDecoyMode_def setState_def external_def)

theorem logout_decoy_vs_real_witness:
  "isDecoyMode (session w_decoy) \<and>
   invoke (logout toy_env) w_decoy = (Inr (), \<lparr>calls = [], session = signed_out\<rparr>) \<and>
   \<not> isDecoyMode (session w_unlocked) \<and>
   invoke (logout toy_env) w_unlocked = (Inr (), \<lparr>calls = [SignOut], session = unlocked\<rparr>)"
proof -
  have h1: "isDecoyMode (session w_decoy)"
    by (simp add: w_decoy_def decoy_def)
  have h2: "\<not> isDecoyMode (session w_unlocked)"
    by (simp add: w_unlocked_def unlocked_def)
  show ?thesis
    using logout_decoy_vs_real[of w_decoy toy_env] logout_decoy_vs_real[of w_unlocked toy_env] h1 h2
    by (simp add: toy_defs)
qed

subsection \<open>C10: the map in memory changes only after the write\<close>

text \<open>
  Claim C10. For \<^verbatim>\<open>decapAndSaveKey\<close> and \<^verbatim>\<open>encapAndSaveKey\<close>, in every state: if the run
  changed the state of the session, then it succeeded and the last call it made is the
  write of \<^verbatim>\<open>encryptedSharedSecrets\<close>, which the store accepted; and if the store accepts
  no write, the run rejects and the state, so the secrets map in memory, is unchanged.
\<close>

theorem secrets_saved_only_after_write:
  "saved_after_write env w (invoke (\<lambda>s. decapAndSaveKey env s chatId ciphertext) w) \<and>
   saved_after_write env w (invoke (\<lambda>s. encapAndSaveKey env s chatId recipientPublicKey) w)"
  using decap_saved encap_saved by blast

text \<open>The store is unreachable while Alice, unlocked, receives and sends a key.\<close>

theorem secrets_saved_only_after_write_witness:
  "(\<forall>docId payload. updateDoc_keyVaults toy_env_offline docId payload \<noteq> Inr ()) \<and>
   isl (fst (invoke (\<lambda>s. decapAndSaveKey toy_env_offline s ''chat1'' ''AD'') w_unlocked)) \<and>
   session (snd (invoke (\<lambda>s. decapAndSaveKey toy_env_offline s ''chat1'' ''AD'') w_unlocked)) =
     session w_unlocked \<and>
   isl (fst (invoke (\<lambda>s. encapAndSaveKey toy_env_offline s ''chat1'' ''AD'') w_unlocked)) \<and>
   session (snd (invoke (\<lambda>s. encapAndSaveKey toy_env_offline s ''chat1'' ''AD'') w_unlocked)) =
     session w_unlocked"
proof -
  have h: "\<forall>docId payload. updateDoc_keyVaults toy_env_offline docId payload \<noteq> Inr ()"
    by (simp add: toy_env_offline_def)
  show ?thesis
    using secrets_saved_only_after_write[of toy_env_offline w_unlocked "''chat1''" "''AD''" "''AD''"] h
    unfolding saved_after_write_def by blast
qed

end
